theory Spec2Isabelle
  imports Complex_Main
begin

section \<open>JavaScript values used by the components\<close>

text \<open>
  Strings are lists of characters (code units up to U+00FF). The empty string is the only
  falsy string. \<open>String.prototype.trim\<close> strips white space and line terminators at
  both ends; within the modelled character range these are TAB, LF, VT, FF, CR, SPACE and
  NBSP.
\<close>

definition is_ws :: "char \<Rightarrow> bool" where
  "is_ws c = ((of_char c :: nat) \<in> {9, 10, 11, 12, 13, 32, 160})"

definition trimStart :: "string \<Rightarrow> string" where
  "trimStart s = dropWhile is_ws s"

definition trim :: "string \<Rightarrow> string" where
  "trim s = rev (dropWhile is_ws (rev (dropWhile is_ws s)))"

definition is_digit :: "char \<Rightarrow> bool" where
  "is_digit c = (48 \<le> (of_char c :: nat) \<and> (of_char c :: nat) \<le> 57)"

definition digit_val :: "char \<Rightarrow> nat" where
  "digit_val c = of_char c - 48"

definition digits_val :: "string \<Rightarrow> nat" where
  "digits_val ds = foldl (\<lambda>a c. 10 * a + digit_val c) 0 ds"

definition digit_char :: "nat \<Rightarrow> char" where
  "digit_char d = char_of (48 + d)"

text \<open>Decimal rendering of a number inside a template literal, as in \<open>${response.status}\<close>.\<close>

fun show_nat :: "nat \<Rightarrow> string" where
  "show_nat n = (if n < 10 then [digit_char n] else show_nat (n div 10) @ [digit_char (n mod 10)])"

declare show_nat.simps [simp del]

text \<open>
  A number as \<open>parseFloat\<close> and \<open>parseInt\<close> return it, that is a double: \<open>NaN\<close>, an
  infinity (\<open>Infty True\<close> is \<open>-Infinity\<close>), zero (\<open>Dec 0 0\<close>, for both zeros, which
  compare alike), or a finite double other than zero, written \<open>Dec m e\<close> by a decimal
  \<open>m * 10 ^ e\<close> that rounds to it. The double nearest to \<open>x\<close> is zero exactly when
  \<open>|x| \<le> 2 ^ -1075\<close> (half the least positive double, the tie going to the even zero)
  and an infinity exactly when \<open>|x| \<ge> 2 ^ 1024 - 2 ^ 970\<close> (half way from the greatest
  double to \<open>2 ^ 1024\<close>); in between it is finite, not zero, and of the sign of \<open>x\<close>.
\<close>

datatype jsnum = NaN | Infty bool | Dec int int

definition signed :: "bool \<Rightarrow> nat \<Rightarrow> int" where
  "signed neg n = (if neg then - int n else int n)"

definition rounds_to_zero :: "nat \<Rightarrow> int \<Rightarrow> bool" where
  "rounds_to_zero m e = (e < 0 \<and> m * 2 ^ 1075 \<le> 10 ^ nat (- e))"

definition rounds_to_infinity :: "nat \<Rightarrow> int \<Rightarrow> bool" where
  "rounds_to_infinity m e =
     (if 0 \<le> e then 2 ^ 1024 - 2 ^ 970 \<le> m * 10 ^ nat e
      else (2 ^ 1024 - 2 ^ 970) * 10 ^ nat (- e) \<le> m)"

text \<open>The double for the decimal \<open>m * 10 ^ e\<close> with the sign \<open>neg\<close>.\<close>

definition to_number :: "bool \<Rightarrow> nat \<Rightarrow> int \<Rightarrow> jsnum" where
  "to_number neg m e =
     (if m = 0 \<or> rounds_to_zero m e then Dec 0 0
      else if rounds_to_infinity m e then Infty neg
      else Dec (signed neg m) e)"

text \<open>\<open>x <= 0\<close> and \<open>x < 0\<close> on numbers: every comparison with \<open>NaN\<close> is false.\<close>

fun le_zero :: "jsnum \<Rightarrow> bool" where
  "le_zero NaN = False"
| "le_zero (Infty neg) = neg"
| "le_zero (Dec m e) = (m \<le> 0)"

fun lt_zero :: "jsnum \<Rightarrow> bool" where
  "lt_zero NaN = False"
| "lt_zero (Infty neg) = neg"
| "lt_zero (Dec m e) = (m < 0)"

text \<open>An optional sign in front of a numeric literal: (negative, rest).\<close>

fun read_sign :: "string \<Rightarrow> bool \<times> string" where
  "read_sign [] = (False, [])"
| "read_sign (c # cs) =
     (if c = CHR ''-'' then (True, cs) else if c = CHR ''+'' then (False, cs) else (False, c # cs))"

text \<open>The exponent part \<open>e[+-]digits\<close> of a decimal literal, 0 when there is none.\<close>

fun read_exponent :: "string \<Rightarrow> int" where
  "read_exponent [] = 0"
| "read_exponent (c # cs) =
     (if c = CHR ''e'' \<or> c = CHR ''E'' then
        (let (neg, r) = read_sign cs; ds = takeWhile is_digit r
         in if ds = [] then 0 else signed neg (digits_val ds))
      else 0)"

text \<open>
  The longest prefix that is an unsigned decimal literal (digits with an optional
  fraction and exponent), as the pair \<open>(m, e)\<close> of the decimal \<open>m * 10 ^ e\<close> it writes;
  \<open>None\<close> when no prefix is one.
\<close>

definition read_decimal :: "string \<Rightarrow> (nat \<times> int) option" where
  "read_decimal u =
     (let ip = takeWhile is_digit u;
          r1 = dropWhile is_digit u;
          fp = (case r1 of [] \<Rightarrow> [] | c # r \<Rightarrow> if c = CHR ''.'' then takeWhile is_digit r else []);
          r2 = (case r1 of [] \<Rightarrow> [] | c # r \<Rightarrow> if c = CHR ''.'' then dropWhile is_digit r else r1)
      in if ip = [] \<and> fp = [] then None
         else Some (digits_val (ip @ fp), read_exponent r2 - int (length fp)))"

text \<open>
  \<open>parseFloat(s)\<close>: skip leading white space, read a sign, then \<open>Infinity\<close> or the
  longest prefix that is a decimal literal; \<open>NaN\<close> when there is neither.
\<close>

definition parseFloat :: "string \<Rightarrow> jsnum" where
  "parseFloat s =
     (let (neg, u) = read_sign (trimStart s) in
      if take 8 u = ''Infinity'' then Infty neg
      else case read_decimal u of
             None \<Rightarrow> NaN
           | Some (m, e) \<Rightarrow> to_number neg m e)"

text \<open>\<open>parseInt(s, 10)\<close>: leading white space, a sign, then the longest run of digits.\<close>

definition parseInt10 :: "string \<Rightarrow> jsnum" where
  "parseInt10 s =
     (let (neg, u) = read_sign (trimStart s); ds = takeWhile is_digit u
      in if ds = [] then NaN else to_number neg (digits_val ds) 0)"


text \<open>\<open>x || y\<close> on an optional string: an absent or empty \<open>x\<close> is falsy.\<close>

fun or_else :: "string option \<Rightarrow> string \<Rightarrow> string" where
  "or_else None y = y"
| "or_else (Some x) y = (if x = [] then y else x)"

section \<open>HTTP outcomes\<close>

text \<open>
  What \<open>await response.json()\<close> gives: a rejection with the parser's message, the value
  \<open>null\<close> (reading a property of it throws), or an object, whose fields follow the schema
  of the API (a field that is absent or \<open>null\<close> is \<open>None\<close>). \<open>response.ok\<close> is true for the statuses 200 to 299. \<open>await fetch(...)\<close>
  either rejects with the transport error's message or resolves to a response.
\<close>

datatype 'a json_result = BodyError string | BodyNull | BodyObject 'a

record 'a response =
  status :: nat
  body :: "'a json_result"

definition ok :: "'a response \<Rightarrow> bool" where
  "ok r = (200 \<le> status r \<and> status r \<le> 299)"

datatype 'a fetch_outcome = Rejected string | Resolved "'a response"

definition null_read :: "string \<Rightarrow> string" where
  "null_read field = ''Cannot read properties of null (reading '' @ [CHR 0x27] @ field @ [CHR 0x27] @ '')''"

text \<open>
  A block of a handler gives the calls it made and, when it threw, the message of what it
  threw. \<open>try { body } catch (err) { handler } finally { fin }\<close> runs the handler on
  what the body throws, and \<open>fin\<close> on every path; what the handler throws is not caught.
\<close>

type_synonym 'a block = "'a list \<times> string option"

definition try_catch_finally :: "'a block \<Rightarrow> (string \<Rightarrow> 'a block) \<Rightarrow> 'a list \<Rightarrow> 'a block" where
  "try_catch_finally b handler fin =
     (case b of
        (acts, None) \<Rightarrow> (acts @ fin, None)
      | (acts, Some m) \<Rightarrow> (case handler m of (hacts, ex) \<Rightarrow> (acts @ hacts @ fin, ex)))"

section \<open>App.js: state, debounce effect and overview fetch\<close>

record loan =
  loan_id :: string
  principal :: rat
  total_amount :: rat
  total_interest :: rat
  emi_amount :: rat
  amount_paid :: rat
  emis_left :: int

record overview_body =
  message :: "string option"
  customer_name :: "string option"
  loans :: "loan list option"

datatype view = Home | Apply | Repay | Ledger

record app_state =
  currentView :: view
  customerId :: string
  debouncedCustomerId :: string
  customerLoans :: "loan list"
  customerName :: string
  selectedLoanIdForLedger :: "string option"
  isLoading :: bool
  error :: "string option"
  debounceTimerRef :: "nat option"

text \<open>The calls a handler of \<open>App\<close> makes, in order: state setters, a GET, a console line.\<close>

datatype app_action =
    SetCurrentView view
  | SetCustomerId string
  | SetDebouncedCustomerId string
  | SetCustomerLoans "loan list"
  | SetCustomerName string
  | SetSelectedLoanIdForLedger "string option"
  | SetIsLoading bool
  | SetError "string option"
  | Fetch string
  | ConsoleError string

fun set_state :: "app_action \<Rightarrow> app_state \<Rightarrow> app_state" where
  "set_state (SetCurrentView v) s = s\<lparr>currentView := v\<rparr>"
| "set_state (SetCustomerId v) s = s\<lparr>customerId := v\<rparr>"
| "set_state (SetDebouncedCustomerId v) s = s\<lparr>debouncedCustomerId := v\<rparr>"
| "set_state (SetCustomerLoans l) s = s\<lparr>customerLoans := l\<rparr>"
| "set_state (SetCustomerName n) s = s\<lparr>customerName := n\<rparr>"
| "set_state (SetSelectedLoanIdForLedger l) s = s\<lparr>selectedLoanIdForLedger := l\<rparr>"
| "set_state (SetIsLoading b) s = s\<lparr>isLoading := b\<rparr>"
| "set_state (SetError e) s = s\<lparr>error := e\<rparr>"
| "set_state (Fetch url) s = s"
| "set_state (ConsoleError m) s = s"

definition API_BASE_URL :: string where
  "API_BASE_URL = ''https://bank-lending-system-backend.onrender.com/api/v1''"

definition overview_url :: "string \<Rightarrow> string" where
  "overview_url cid = API_BASE_URL @ ''/customers/'' @ cid @ ''/overview''"

text \<open>
  The body of the debounce timer's callback (App.js lines 45 to 55); \<open>customerId\<close> is the
  raw input the callback closed over.
\<close>

definition debounce_callback :: "string \<Rightarrow> app_action list" where
  "debounce_callback customerId' =
     (let trimmedInput = trim customerId' in
      if trimmedInput \<noteq> [] then [SetDebouncedCustomerId trimmedInput]
      else [SetDebouncedCustomerId [], SetCustomerLoans [], SetCustomerName [], SetError None])"

text \<open>
  \<open>fetchCustomerOverview\<close> (lines 66 to 91) runs in two parts: up to the \<open>await fetch\<close>,
  and from the outcome of the request to the end of \<open>finally\<close>. \<open>cid\<close> is the
  \<open>debouncedCustomerId\<close> the closure was created with.
\<close>

definition fetchCustomerOverview_start :: "string \<Rightarrow> app_action list" where
  "fetchCustomerOverview_start cid =
     (if cid = [] then [SetCustomerLoans [], SetCustomerName []]
      else [SetIsLoading True, SetError None, Fetch (overview_url cid)])"

text \<open>The \<open>try\<close> block from the point where the request settles.\<close>

definition overview_try :: "string \<Rightarrow> overview_body fetch_outcome \<Rightarrow> app_action block" where
  "overview_try cid out =
     (case out of
        Rejected m \<Rightarrow> ([], Some m)
      | Resolved r \<Rightarrow>
          if \<not> ok r then
            (case body r of
               BodyError m \<Rightarrow> ([], Some m)
             | BodyNull \<Rightarrow> ([], Some (null_read ''message''))
             | BodyObject errorData \<Rightarrow>
                 ([], Some (or_else (message errorData)
                              (''HTTP error! status: '' @ show_nat (status r)))))
          else
            (case body r of
               BodyError m \<Rightarrow> ([], Some m)
             | BodyNull \<Rightarrow> ([], Some (null_read ''loans''))
             | BodyObject data \<Rightarrow>
                 ([SetCustomerLoans (case loans data of None \<Rightarrow> [] | Some l \<Rightarrow> l),
                   SetCustomerName (or_else (customer_name data) (''Customer '' @ cid))],
                  None)))"

definition overview_catch :: "string \<Rightarrow> app_action block" where
  "overview_catch m =
     ([ConsoleError (''Failed to fetch customer overview: '' @ m),
       SetError (Some (''Failed to load customer data: '' @ m @ ''. Please check the Customer ID.'')),
       SetCustomerLoans [],
       SetCustomerName []],
      None)"

definition fetchCustomerOverview_settle :: "string \<Rightarrow> overview_body fetch_outcome \<Rightarrow> app_action block" where
  "fetchCustomerOverview_settle cid out =
     try_catch_finally (overview_try cid out) overview_catch [SetIsLoading False]"

definition fetchCustomerOverview_resume :: "string \<Rightarrow> overview_body fetch_outcome \<Rightarrow> app_action list" where
  "fetchCustomerOverview_resume cid out = fst (fetchCustomerOverview_settle cid out)"

definition handleViewChange :: "view \<Rightarrow> app_action list" where
  "handleViewChange v = [SetCurrentView v, SetError None, SetSelectedLoanIdForLedger None]"

definition handleViewLedger :: "string \<Rightarrow> app_action list" where
  "handleViewLedger loanId = [SetSelectedLoanIdForLedger (Some loanId), SetCurrentView Ledger]"


section \<open>The running application: timers, pending requests and events\<close>

text \<open>
  Around the component's state, the environment holds the clock (in milliseconds), the
  pending timeouts (handle, due time, the \<open>customerId\<close> its callback closed over), the
  next timer handle (handles are positive, so a stored handle is truthy), the overview
  requests that have not settled yet (each with the \<open>debouncedCustomerId\<close> of the closure
  that awaits it), and two logs: the URLs requested and the values passed to
  \<open>setDebouncedCustomerId\<close>, which are the publications of the stable identifier.
  Everything runs on one thread: a handler or callback, the re-render it causes and the
  effects of that re-render are one step, and so is the settling of a request together
  with the reading of its body.
\<close>

record world =
  app :: app_state
  mounted :: bool
  now :: nat
  timers :: "(nat \<times> nat \<times> string) list"
  next_timer :: nat
  inflight :: "string list"
  requests :: "string list"
  published :: "string list"

text \<open>A state setter of an unmounted component changes nothing.\<close>

definition perform :: "app_action \<Rightarrow> world \<Rightarrow> world" where
  "perform a w =
     (let w1 = (if mounted w then w\<lparr>app := set_state a (app w)\<rparr> else w) in
      case a of
        SetDebouncedCustomerId v \<Rightarrow> w1\<lparr>published := published w1 @ [v]\<rparr>
      | Fetch url \<Rightarrow> w1\<lparr>requests := requests w1 @ [url]\<rparr>
      | _ \<Rightarrow> w1)"

definition run_actions :: "app_action list \<Rightarrow> world \<Rightarrow> world" where
  "run_actions acts w = fold perform acts w"

definition truthy_ref :: "nat option \<Rightarrow> bool" where
  "truthy_ref r = (case r of None \<Rightarrow> False | Some h \<Rightarrow> h \<noteq> 0)"

definition clearTimeout :: "nat option \<Rightarrow> world \<Rightarrow> world" where
  "clearTimeout r w = w\<lparr>timers := filter (\<lambda>(h, due, v). Some h \<noteq> r) (timers w)\<rparr>"

definition setTimeout :: "string \<Rightarrow> nat \<Rightarrow> world \<Rightarrow> nat \<times> world" where
  "setTimeout v delay w =
     (next_timer w,
      w\<lparr>timers := timers w @ [(next_timer w, now w + delay, v)], next_timer := Suc (next_timer w)\<rparr>)"

text \<open>The debounce effect (lines 38 to 63): its body, and the cleanup it returns.\<close>

definition debounce_effect :: "world \<Rightarrow> world" where
  "debounce_effect w =
     (let w1 = (if truthy_ref (debounceTimerRef (app w))
                then clearTimeout (debounceTimerRef (app w)) w else w);
          (h, w2) = setTimeout (customerId (app w1)) 500 w1
      in w2\<lparr>app := (app w2)\<lparr>debounceTimerRef := Some h\<rparr>\<rparr>)"

definition debounce_cleanup :: "world \<Rightarrow> world" where
  "debounce_cleanup w =
     (if truthy_ref (debounceTimerRef (app w))
      then clearTimeout (debounceTimerRef (app w)) w else w)"

text \<open>
  A call of the closure \<open>fetchCustomerOverview\<close> created with \<open>debouncedCustomerId = cid\<close>:
  it runs up to the \<open>await\<close>, and a request it has issued is pending from then on.
\<close>

definition call_fetchCustomerOverview :: "string \<Rightarrow> world \<Rightarrow> world" where
  "call_fetchCustomerOverview cid w =
     (let w1 = run_actions (fetchCustomerOverview_start cid) w
      in if cid = [] then w1 else w1\<lparr>inflight := inflight w1 @ [cid]\<rparr>)"

text \<open>
  A timer fires: its callback runs, and when \<open>debouncedCustomerId\<close> has changed the
  re-render gives a new \<open>fetchCustomerOverview\<close>, so the effect of lines 94 to 96 calls it.
\<close>

definition timer_fire :: "string \<Rightarrow> world \<Rightarrow> world" where
  "timer_fire v w =
     (let w1 = run_actions (debounce_callback v) w in
      if debouncedCustomerId (app w1) \<noteq> debouncedCustomerId (app w)
      then call_fetchCustomerOverview (debouncedCustomerId (app w1)) w1
      else w1)"

text \<open>Time passes: the timeouts that are due fire in the order of their due times.\<close>

definition advance :: "nat \<Rightarrow> world \<Rightarrow> world" where
  "advance d w =
     (let t = now w + d;
          due = filter (\<lambda>(h, due, v). due \<le> t) (timers w);
          rest = filter (\<lambda>(h, due, v). \<not> due \<le> t) (timers w)
      in fold timer_fire (map (\<lambda>(h, due, v). v) (sort_key (\<lambda>(h, due, v). due) due))
           (w\<lparr>now := t, timers := rest\<rparr>))"

text \<open>
  \<open>onChange\<close> of the input calls \<open>setCustomerId\<close>. A value equal to the current one
  changes nothing; otherwise the re-render runs the cleanup of the previous debounce
  effect and then the effect again (its dependency is \<open>customerId\<close>).
\<close>

definition change :: "string \<Rightarrow> world \<Rightarrow> world" where
  "change v w =
     (if \<not> mounted w \<or> v = customerId (app w) then w
      else debounce_effect (debounce_cleanup (run_actions [SetCustomerId v] w)))"

text \<open>The \<open>k\<close>-th pending overview request settles and its closure runs to the end.\<close>

definition resolve :: "nat \<Rightarrow> overview_body fetch_outcome \<Rightarrow> world \<Rightarrow> world" where
  "resolve k out w =
     (if k < length (inflight w)
      then run_actions (fetchCustomerOverview_resume (inflight w ! k) out)
             (w\<lparr>inflight := take k (inflight w) @ drop (Suc k) (inflight w)\<rparr>)
      else w)"

text \<open>Unmounting runs the cleanup of the debounce effect.\<close>

definition unmount :: "world \<Rightarrow> world" where
  "unmount w = (debounce_cleanup w)\<lparr>mounted := False\<rparr>"

text \<open>
  Mounting: the initial state of the hooks, then both effects run once: the debounce
  effect and the call of \<open>fetchCustomerOverview\<close>.
\<close>

definition initial_state :: app_state where
  "initial_state =
     \<lparr>currentView = Home, customerId = [], debouncedCustomerId = [], customerLoans = [],
      customerName = [], selectedLoanIdForLedger = None, isLoading = False, error = None,
      debounceTimerRef = None\<rparr>"

definition mount :: world where
  "mount =
     call_fetchCustomerOverview []
       (debounce_effect
          \<lparr>app = initial_state, mounted = True, now = 0, timers = [], next_timer = 1,
           inflight = [], requests = [], published = []\<rparr>)"

text \<open>
  What can happen to the mounted application: the user edits the input, time passes, a
  pending request settles, the user navigates, or a form calls the \<open>fetchCustomerOverview\<close>
  it was handed when \<open>debouncedCustomerId\<close> was \<open>cid\<close>.
\<close>

datatype event =
    Change string
  | Advance nat
  | Resolve nat "overview_body fetch_outcome"
  | ViewChange view
  | ViewLedger string
  | Refresh string

fun step :: "event \<Rightarrow> world \<Rightarrow> world" where
  "step (Change v) w = change v w"
| "step (Advance d) w = advance d w"
| "step (Resolve k out) w = resolve k out w"
| "step (ViewChange v) w = run_actions (handleViewChange v) w"
| "step (ViewLedger l) w = run_actions (handleViewLedger l) w"
| "step (Refresh cid) w = call_fetchCustomerOverview cid w"

definition run :: "event list \<Rightarrow> world \<Rightarrow> world" where
  "run es w = fold step es w"

text \<open>
  What the shell renders (lines 136 to 156): the loading line while \<open>isLoading\<close>, the
  error line while \<open>error\<close> is set, and with neither the overview of the stable identifier
  or, when that is empty, the prompt for an identifier.
\<close>

datatype fetch_state = Idle | Loading | Success string "loan list" | Failure string

definition fetch_state :: "app_state \<Rightarrow> fetch_state" where
  "fetch_state s =
     (if isLoading s then Loading
      else case error s of
             Some m \<Rightarrow> Failure m
           | None \<Rightarrow> if debouncedCustomerId s = [] then Idle
                     else Success (customerName s) (customerLoans s))"


section \<open>Props handed to the forms\<close>

text \<open>
  A component receives its props by name and destructures the names it declares; a name
  that was not passed is \<open>undefined\<close>. \<open>PropCallback cid\<close> is the closure
  \<open>fetchCustomerOverview\<close> of the render in which \<open>debouncedCustomerId\<close> was \<open>cid\<close>.
\<close>

datatype prop_value = PropString string | PropLoans "loan list" | PropCallback string

type_synonym props = "(string \<times> prop_value) list"

definition prop_callback :: "props \<Rightarrow> string \<Rightarrow> string option" where
  "prop_callback ps name = (case map_of ps name of Some (PropCallback cid) \<Rightarrow> Some cid | _ \<Rightarrow> None)"

text \<open>App.js line 159 and line 163.\<close>

definition LoanApplication_props :: "app_state \<Rightarrow> props" where
  "LoanApplication_props s =
     [(''customerId'', PropString (debouncedCustomerId s)),
      (''onLoanApplied'', PropCallback (debouncedCustomerId s))]"

definition PaymentForm_props :: "app_state \<Rightarrow> props" where
  "PaymentForm_props s =
     [(''loans'', PropLoans (customerLoans s)),
      (''onPaymentRecorded'', PropCallback (debouncedCustomerId s))]"

section \<open>PaymentForm: handleSubmit\<close>

record payment_body =
  pay_message :: "string option"
  payment_id :: "string option"
  pay_loan_id :: "string option"
  remaining_balance :: "rat option"
  pay_emis_left :: "int option"

record payment_payload =
  amount :: jsnum
  payment_type :: string

record pay_feedback =
  fb_text :: "string option"
  fb_data :: "payment_body option"

record payment_form =
  selectedLoanId :: string
  paymentAmount :: string
  paymentType :: string
  responseFeedback :: "pay_feedback option"
  isPaymentSuccess :: "bool option"
  isProcessingPayment :: bool

datatype pay_action =
    SetPaymentAmount string
  | SetPaymentType string
  | SetResponseFeedback "pay_feedback option"
  | SetIsPaymentSuccess "bool option"
  | SetIsProcessingPayment bool
  | PostPayment string payment_payload
  | PayConsoleLog string
  | OnPaymentRecorded string


definition PAYMENT_API_BASE_URL :: string where
  "PAYMENT_API_BASE_URL = ''http://localhost:5000/api/v1''"

text \<open>The client-side validation of line 40.\<close>

definition payment_invalid :: "payment_form \<Rightarrow> bool" where
  "payment_invalid f =
     (selectedLoanId f = [] \<or> le_zero (parseFloat (paymentAmount f)) \<or> paymentType f = [])"

text \<open>\<open>handleSubmit\<close> up to the \<open>await fetch\<close> (lines 36 to 62).\<close>

definition payment_handleSubmit_start :: "payment_form \<Rightarrow> pay_action list" where
  "payment_handleSubmit_start f =
     (if payment_invalid f then
        [SetIsPaymentSuccess (Some False),
         SetResponseFeedback (Some \<lparr>fb_text = Some ''Please select a loan, ensure payment amount is positive, and select a payment type.'', fb_data = None\<rparr>)]
      else
        [SetResponseFeedback None,
         SetIsPaymentSuccess None,
         SetIsProcessingPayment True,
         PostPayment (PAYMENT_API_BASE_URL @ ''/loans/'' @ selectedLoanId f @ ''/payments'')
           \<lparr>amount = parseFloat (paymentAmount f), payment_type = paymentType f\<rparr>])"

definition payment_logs :: "pay_action list" where
  "payment_logs =
     [PayConsoleLog ''Payment API Response Status:'',
      PayConsoleLog ''Payment API Response.ok:'',
      PayConsoleLog ''Payment API Response Body (result):'']"

text \<open>
  The \<open>try\<close> block from the settled request on (lines 64 to 92). \<open>onPaymentRecorded\<close> is
  the destructured prop. With a \<open>null\<close> body the success flag is set before the read of
  \<open>result.message\<close> throws.
\<close>

definition payment_try :: "string option \<Rightarrow> payment_body fetch_outcome \<Rightarrow> pay_action block" where
  "payment_try onPaymentRecorded out =
     (case out of
        Rejected m \<Rightarrow> ([], Some m)
      | Resolved r \<Rightarrow>
          (case body r of
             BodyError m \<Rightarrow> ([], Some m)
           | BodyNull \<Rightarrow>
               (payment_logs @ [SetIsPaymentSuccess (Some (ok r))], Some (null_read ''message''))
           | BodyObject result \<Rightarrow>
               if ok r then
                 (payment_logs @
                  [SetIsPaymentSuccess (Some True),
                   SetResponseFeedback (Some \<lparr>fb_text = pay_message result, fb_data = Some result\<rparr>),
                   SetPaymentAmount [],
                   SetPaymentType ''EMI''] @
                  (case onPaymentRecorded of Some cid \<Rightarrow> [OnPaymentRecorded cid] | None \<Rightarrow> []),
                  None)
               else
                 (payment_logs @
                  [SetIsPaymentSuccess (Some False),
                   SetResponseFeedback (Some \<lparr>fb_text = Some (or_else (pay_message result) ''An unexpected server error occurred during payment. Please try again.''), fb_data = None\<rparr>)],
                  None)))"

definition payment_catch :: "string \<Rightarrow> pay_action block" where
  "payment_catch m =
     ([SetIsPaymentSuccess (Some False),
       SetResponseFeedback (Some \<lparr>fb_text = Some (''Network error: '' @ m @ ''. Please ensure your backend server is running and accessible.''), fb_data = None\<rparr>)],
      None)"

definition payment_handleSubmit_settle :: "string option \<Rightarrow> payment_body fetch_outcome \<Rightarrow> pay_action block" where
  "payment_handleSubmit_settle onPaymentRecorded out =
     try_catch_finally (payment_try onPaymentRecorded out) payment_catch [SetIsProcessingPayment False]"

section \<open>LoanApplication: handleSubmit\<close>

record loan_created =
  lc_loan_id :: string
  lc_customer_id :: string
  total_amount_payable :: rat
  monthly_emi :: rat

record loan_body =
  la_message :: "string option"
  la_data :: "loan_created option"

record loan_payload =
  customer_id :: string
  loan_amount :: jsnum
  interest_rate_yearly :: jsnum
  loan_period_years :: jsnum

record submission_message =
  sm_text :: "string option"
  sm_data :: "loan_created option"

record loan_form =
  la_customerId :: string
  loanAmount :: string
  loanPeriodYears :: string
  interestRateYearly :: string
  submissionMessage :: "submission_message option"
  isSubmissionSuccess :: "bool option"
  isSubmitting :: bool

datatype loan_action =
    SetLaCustomerId string
  | SetLoanAmount string
  | SetLoanPeriodYears string
  | SetInterestRateYearly string
  | SetSubmissionMessage "submission_message option"
  | SetIsSubmissionSuccess "bool option"
  | SetIsSubmitting bool
  | PostLoan string loan_payload
  | OnLoanCreated string

definition API_ENDPOINT :: string where
  "API_ENDPOINT = ''https://bank-lending-system-backend.onrender.com/api/v1/loans''"

text \<open>The client-side validation of lines 30 to 35.\<close>

definition loan_invalid :: "loan_form \<Rightarrow> bool" where
  "loan_invalid f =
     (trim (la_customerId f) = [] \<or>
      le_zero (parseFloat (loanAmount f)) \<or>
      lt_zero (parseFloat (interestRateYearly f)) \<or>
      le_zero (parseInt10 (loanPeriodYears f)))"

definition loan_handleSubmit_start :: "loan_form \<Rightarrow> loan_action list" where
  "loan_handleSubmit_start f =
     (if loan_invalid f then
        [SetIsSubmissionSuccess (Some False),
         SetSubmissionMessage (Some \<lparr>sm_text = Some ''Please ensure all fields are filled correctly: Customer ID, positive Loan Amount, non-negative Annual Interest Rate, and positive Loan Period.'', sm_data = None\<rparr>)]
      else
        [SetSubmissionMessage None,
         SetIsSubmissionSuccess None,
         SetIsSubmitting True,
         PostLoan API_ENDPOINT
           \<lparr>customer_id = trim (la_customerId f),
            loan_amount = parseFloat (loanAmount f),
            interest_rate_yearly = parseFloat (interestRateYearly f),
            loan_period_years = parseInt10 (loanPeriodYears f)\<rparr>])"

text \<open>The \<open>try\<close> block from the settled request on (lines 61 to 85); \<open>onLoanCreated\<close> is the destructured prop.\<close>

definition loan_try :: "string option \<Rightarrow> loan_body fetch_outcome \<Rightarrow> loan_action block" where
  "loan_try onLoanCreated out =
     (case out of
        Rejected m \<Rightarrow> ([], Some m)
      | Resolved r \<Rightarrow>
          (case body r of
             BodyError m \<Rightarrow> ([], Some m)
           | BodyNull \<Rightarrow> ([SetIsSubmissionSuccess (Some (ok r))], Some (null_read ''message''))
           | BodyObject result \<Rightarrow>
               if ok r then
                 ([SetIsSubmissionSuccess (Some True),
                   SetSubmissionMessage (Some \<lparr>sm_text = la_message result, sm_data = la_data result\<rparr>),
                   SetLaCustomerId [],
                   SetLoanAmount [],
                   SetLoanPeriodYears [],
                   SetInterestRateYearly ''10.0''] @
                  (case onLoanCreated of Some cid \<Rightarrow> [OnLoanCreated cid] | None \<Rightarrow> []),
                  None)
               else
                 ([SetIsSubmissionSuccess (Some False),
                   SetSubmissionMessage (Some \<lparr>sm_text = Some (or_else (la_message result) ''An unexpected server error occurred during loan application. Please try again.''), sm_data = None\<rparr>)],
                  None)))"

definition loan_catch :: "string \<Rightarrow> loan_action block" where
  "loan_catch m =
     ([SetIsSubmissionSuccess (Some False),
       SetSubmissionMessage (Some \<lparr>sm_text = Some (''Network error: '' @ m @ ''. Please ensure your backend server is running and accessible at '' @ API_ENDPOINT @ ''.''), sm_data = None\<rparr>)],
      None)"

definition loan_handleSubmit_settle :: "string option \<Rightarrow> loan_body fetch_outcome \<Rightarrow> loan_action block" where
  "loan_handleSubmit_settle onLoanCreated out =
     try_catch_finally (loan_try onLoanCreated out) loan_catch [SetIsSubmitting False]"

section \<open>LoanLedger: fetchLoanLedger\<close>

record ledger_transaction =
  transaction_id :: string
  tx_date :: string
  tx_type :: string
  tx_amount :: rat

record ledger_data =
  ld_loan_id :: string
  ld_customer_id :: string
  ld_principal :: rat
  ld_total_amount :: rat
  ld_monthly_emi :: rat
  ld_amount_paid :: rat
  balance_amount :: rat
  ld_emis_left :: int
  transactions :: "ledger_transaction list"











section \<open>The forms around the submit handlers\<close>

text \<open>
  Each \<open>handleSubmit\<close> is the \<open>onSubmit\<close> of a form (PaymentForm lines 107 to 157,
  LoanApplication lines 100 to 149), neither with \<open>noValidate\<close>. The browser runs the
  handler only when the submit button is enabled and every field satisfies its
  constraints; otherwise it points at the invalid field itself, the handler does not run
  and the state of the component does not change.

  A field of type \<open>number\<close> holds the empty value unless its text is a valid
  floating-point number (an optional minus sign, digits or a fraction with at least one
  digit or both, an optional exponent, and nothing else) inside the range of the finite
  doubles, as in Blink. \<open>required\<close> fails on the empty value; \<open>min\<close>, \<open>max\<close> and
  \<open>step\<close> are checked on the decimal the text writes, and the steps are counted from
  the minimum. All number fields of the two forms are required and have a minimum.
\<close>

fun valid_exponent :: "string \<Rightarrow> bool" where
  "valid_exponent [] = True"
| "valid_exponent (c # cs) =
     ((c = CHR ''e'' \<or> c = CHR ''E'') \<and>
      (let ds = snd (read_sign cs) in ds \<noteq> [] \<and> list_all is_digit ds))"

definition valid_float :: "string \<Rightarrow> bool" where
  "valid_float s =
     (let u = (case s of [] \<Rightarrow> [] | c # r \<Rightarrow> if c = CHR ''-'' then r else s);
          ip = takeWhile is_digit u;
          r1 = dropWhile is_digit u
      in case r1 of
           [] \<Rightarrow> ip \<noteq> []
         | c # r \<Rightarrow>
             if c = CHR ''.''
             then takeWhile is_digit r \<noteq> [] \<and> valid_exponent (dropWhile is_digit r)
             else ip \<noteq> [] \<and> valid_exponent r1)"

definition decimal_value :: "bool \<Rightarrow> nat \<Rightarrow> int \<Rightarrow> rat" where
  "decimal_value neg m e =
     of_int (signed neg m) * (if 0 \<le> e then 10 ^ nat e else 1 / 10 ^ nat (- e))"

text \<open>The number a number field holds, \<open>None\<close> when its value is empty.\<close>

definition number_value :: "string \<Rightarrow> rat option" where
  "number_value s =
     (if valid_float s then
        (case read_sign s of
           (neg, u) \<Rightarrow>
             (case read_decimal u of
                None \<Rightarrow> None
              | Some (m, e) \<Rightarrow>
                  if rounds_to_infinity m e then None else Some (decimal_value neg m e)))
      else None)"

definition step_mismatch :: "rat \<Rightarrow> rat \<Rightarrow> rat \<Rightarrow> bool" where
  "step_mismatch base stp v = (let q = (v - base) / stp in of_int \<lfloor>q\<rfloor> \<noteq> q)"

text \<open>A required number field with the attributes \<open>min\<close>, \<open>max\<close> (if any) and \<open>step\<close>.\<close>

definition number_field_invalid :: "rat \<Rightarrow> rat option \<Rightarrow> rat \<Rightarrow> string \<Rightarrow> bool" where
  "number_field_invalid mn mx stp s =
     (case number_value s of
        None \<Rightarrow> True
      | Some v \<Rightarrow>
          v < mn \<or> (case mx of None \<Rightarrow> False | Some b \<Rightarrow> b < v) \<or> step_mismatch mn stp v)"

text \<open>
  PaymentForm: the button is disabled while a payment is processed or no loan is
  selected; the loan select and the type select are required; the amount has
  \<open>min="0.01"\<close> and \<open>step="0.01"\<close>.
\<close>

definition payment_form_blocked :: "payment_form \<Rightarrow> bool" where
  "payment_form_blocked f =
     (isProcessingPayment f \<or> selectedLoanId f = [] \<or>
      number_field_invalid (1 / 100) None (1 / 100) (paymentAmount f) \<or>
      paymentType f = [])"

definition payment_submit :: "payment_form \<Rightarrow> pay_action list option" where
  "payment_submit f =
     (if payment_form_blocked f then None else Some (payment_handleSubmit_start f))"

text \<open>
  LoanApplication: the button is disabled while submitting; the customer id is a
  required text field; the amount has \<open>min="1"\<close>, the rate \<open>min="0"\<close> and
  \<open>step="0.1"\<close>, the period \<open>min="1"\<close> and \<open>max="30"\<close>; the default step is 1.
\<close>

definition loan_form_blocked :: "loan_form \<Rightarrow> bool" where
  "loan_form_blocked g =
     (isSubmitting g \<or> la_customerId g = [] \<or>
      number_field_invalid 1 None 1 (loanAmount g) \<or>
      number_field_invalid 0 None (1 / 10) (interestRateYearly g) \<or>
      number_field_invalid 1 (Some 30) 1 (loanPeriodYears g))"

definition loan_submit :: "loan_form \<Rightarrow> loan_action list option" where
  "loan_submit g =
     (if loan_form_blocked g then None else Some (loan_handleSubmit_start g))"

text \<open>
  Fields that are malformed or missing: no loan selected, an amount that is not a
  positive number, no payment type; no customer id, a loan amount or a period that is not
  a positive number, a rate that is not a number or is negative.
\<close>

fun is_positive :: "jsnum \<Rightarrow> bool" where
  "is_positive NaN = False"
| "is_positive (Infty neg) = (\<not> neg)"
| "is_positive (Dec m e) = (0 < m)"

definition payment_malformed :: "payment_form \<Rightarrow> bool" where
  "payment_malformed f =
     (selectedLoanId f = [] \<or> \<not> is_positive (parseFloat (paymentAmount f)) \<or>
      paymentType f = [])"

definition loan_malformed :: "loan_form \<Rightarrow> bool" where
  "loan_malformed g =
     (trim (la_customerId g) = [] \<or>
      \<not> is_positive (parseFloat (loanAmount g)) \<or>
      parseFloat (interestRateYearly g) = NaN \<or> lt_zero (parseFloat (interestRateYearly g)) \<or>
      \<not> is_positive (parseFloat (loanPeriodYears g)))"

section \<open>Notions used in the statements\<close>

text \<open>
  One execution of a handler with nothing else happening between its first part and
  the settling of its request. Without a request (empty identifier, failed validation,
  no loan selected) the first part is the whole execution, and a submit that the form
  blocks is no execution at all.
\<close>

definition overview_cycle :: "string \<Rightarrow> overview_body fetch_outcome \<Rightarrow> app_action list" where
  "overview_cycle cid out =
     (if cid = [] then fetchCustomerOverview_start cid
      else fetchCustomerOverview_start cid @ fetchCustomerOverview_resume cid out)"



text \<open>The calls of the refresh callback in the trace of a form's handler.\<close>

fun is_OnLoanCreated :: "loan_action \<Rightarrow> bool" where
  "is_OnLoanCreated (OnLoanCreated cid) = True"
| "is_OnLoanCreated a = False"

fun is_OnPaymentRecorded :: "pay_action \<Rightarrow> bool" where
  "is_OnPaymentRecorded (OnPaymentRecorded cid) = True"
| "is_OnPaymentRecorded a = False"


text \<open>An error is never held together with loans or a customer name.\<close>

definition overview_inv :: "app_state \<Rightarrow> bool" where
  "overview_inv s = (error s \<noteq> None \<longrightarrow> customerLoans s = [] \<and> customerName s = [])"

text \<open>
  The part of the environment the debounce effect works on, and the invariant it keeps
  while the component is mounted: at most one timeout is pending, it is the one whose
  handle the ref holds, it closed over the current input, and it is due within 500 ms.
\<close>

definition timer_view :: "world \<Rightarrow> (nat \<times> nat \<times> string) list \<times> nat \<times> nat \<times> bool \<times> nat option \<times> string" where
  "timer_view w = (timers w, next_timer w, now w, mounted w, debounceTimerRef (app w), customerId (app w))"

definition timers_ok :: "world \<Rightarrow> bool" where
  "timers_ok w =
     (mounted w \<and> 0 < next_timer w \<and>
      (case debounceTimerRef (app w) of None \<Rightarrow> True | Some h \<Rightarrow> 0 < h) \<and>
      (case timers w of
         [] \<Rightarrow> True
       | (h, due, v) # ts \<Rightarrow>
           ts = [] \<and> debounceTimerRef (app w) = Some h \<and> v = customerId (app w) \<and>
           now w < due \<and> due \<le> now w + 500))"

text \<open>The values a list of calls passes to \<open>setDebouncedCustomerId\<close>; the calls of \<open>setCustomerId\<close>.\<close>

fun publications :: "app_action list \<Rightarrow> string list" where
  "publications [] = []"
| "publications (SetDebouncedCustomerId v # acts) = v # publications acts"
| "publications (a # acts) = publications acts"

fun edits_input :: "app_action \<Rightarrow> bool" where
  "edits_input (SetCustomerId v) = True"
| "edits_input a = False"

text \<open>
  A run of keystrokes, each followed by the events that happen until the next keystroke:
  none of them is a change of the input, and \<open>elapsed\<close> is the time that passes during
  them. \<open>real_changes\<close> is the condition that each keystroke changes the text of the
  input (the field reports no change otherwise).
\<close>

fun is_change :: "event \<Rightarrow> bool" where
  "is_change (Change v) = True"
| "is_change e = False"

fun elapsed :: "event list \<Rightarrow> nat" where
  "elapsed [] = 0"
| "elapsed (Advance d # es) = d + elapsed es"
| "elapsed (e # es) = elapsed es"

definition no_input :: "event list \<Rightarrow> bool" where
  "no_input es = list_all (\<lambda>e. \<not> is_change e) es"

fun typing :: "(string \<times> event list) list \<Rightarrow> event list" where
  "typing [] = []"
| "typing ((v, gap) # ks) = Change v # gap @ typing ks"

fun real_changes :: "string \<Rightarrow> string list \<Rightarrow> bool" where
  "real_changes cur [] = True"
| "real_changes cur (v # vs) = (v \<noteq> cur \<and> real_changes v vs)"


section \<open>Blocks and traces of the handlers\<close>

lemma timer_view_perform: "\<not> edits_input a \<Longrightarrow> timer_view (perform a w) = timer_view w"
  by (cases a) (simp_all add: timer_view_def perform_def Let_def)

lemma timer_view_run_actions:
  "list_all (\<lambda>a. \<not> edits_input a) acts \<Longrightarrow> timer_view (run_actions acts w) = timer_view w"
  unfolding run_actions_def
  by (induction acts arbitrary: w) (simp_all add: timer_view_perform)

lemma published_perform: "published (perform a w) = published w @ publications [a]"
  by (cases a) (simp_all add: perform_def Let_def)

lemma publications_append: "publications (xs @ ys) = publications xs @ publications ys"
  by (induction xs rule: publications.induct) simp_all

lemma published_run_actions: "published (run_actions acts w) = published w @ publications acts"
  unfolding run_actions_def
proof (induction acts arbitrary: w)
  case Nil show ?case by simp
next
  case (Cons a acts)
  have "publications (a # acts) = publications [a] @ publications acts"
    using publications_append [of "[a]" acts] by simp
  with Cons show ?case by (simp add: published_perform)
qed

lemma start_quiet:
  "list_all (\<lambda>a. \<not> edits_input a) (fetchCustomerOverview_start cid)"
  "publications (fetchCustomerOverview_start cid) = []"
  by (simp_all add: fetchCustomerOverview_start_def)

lemma try_catch_finally_simps [simp]:
  "try_catch_finally (acts, None) h fin = (acts @ fin, None)"
  "try_catch_finally (acts, Some m) h fin = (acts @ fst (h m) @ fin, snd (h m))"
  by (simp_all add: try_catch_finally_def split: prod.splits)

lemma or_else_nonempty: "y \<noteq> [] \<Longrightarrow> or_else x y \<noteq> []"
  by (cases x) simp_all

lemma overview_try_cases:
  "(\<exists>m. overview_try cid out = ([], Some m)) \<or>
   (\<exists>l n. overview_try cid out = ([SetCustomerLoans l, SetCustomerName n], None) \<and> n \<noteq> [])"
  by (cases out) (auto simp: overview_try_def or_else_nonempty split: json_result.splits option.splits)

lemma resume_cases:
  "(\<exists>m c. fetchCustomerOverview_resume cid out =
       [ConsoleError c, SetError (Some m), SetCustomerLoans [], SetCustomerName [], SetIsLoading False]) \<or>
   (\<exists>l n. fetchCustomerOverview_resume cid out =
       [SetCustomerLoans l, SetCustomerName n, SetIsLoading False] \<and> n \<noteq> [])"
  using overview_try_cases [of cid out]
  by (auto simp: fetchCustomerOverview_resume_def fetchCustomerOverview_settle_def overview_catch_def)

lemma resume_quiet:
  "list_all (\<lambda>a. \<not> edits_input a) (fetchCustomerOverview_resume cid out)"
  "publications (fetchCustomerOverview_resume cid out) = []"
  using resume_cases [of cid out] by auto

lemma callback_quiet:
  "list_all (\<lambda>a. \<not> edits_input a) (debounce_callback v)"
  "publications (debounce_callback v) = [trim v]"
  by (simp_all add: debounce_callback_def Let_def)

lemma nav_quiet:
  "list_all (\<lambda>a. \<not> edits_input a) (handleViewChange vw)"
  "publications (handleViewChange vw) = []"
  "list_all (\<lambda>a. \<not> edits_input a) (handleViewLedger l)"
  "publications (handleViewLedger l) = []"
  by (simp_all add: handleViewChange_def handleViewLedger_def)

lemma timer_view_inflight [simp]: "timer_view (w\<lparr>inflight := x\<rparr>) = timer_view w"
  by (simp add: timer_view_def)

lemma call_fetch_frame:
  "timer_view (call_fetchCustomerOverview cid w) = timer_view w"
  "published (call_fetchCustomerOverview cid w) = published w"
  by (simp_all add: call_fetchCustomerOverview_def Let_def timer_view_run_actions
      published_run_actions start_quiet)

lemma timer_fire_frame:
  "timer_view (timer_fire v w) = timer_view w"
  "published (timer_fire v w) = published w @ [trim v]"
  by (simp_all add: timer_fire_def Let_def call_fetch_frame timer_view_run_actions
      published_run_actions callback_quiet)

lemma resolve_frame:
  "timer_view (resolve k out w) = timer_view w"
  "published (resolve k out w) = published w"
  by (simp_all add: resolve_def timer_view_run_actions published_run_actions resume_quiet)

lemma timers_ok_view: "timer_view w' = timer_view w \<Longrightarrow> timers_ok w' = timers_ok w"
  by (simp add: timer_view_def timers_ok_def split: list.splits)

lemma timers_ok_change:
  assumes "timers_ok w" "v \<noteq> customerId (app w)"
  shows "timers_ok (change v w)"
    and "timers (change v w) = [(next_timer w, now w + 500, v)]"
    and "published (change v w) = published w"
    and "customerId (app (change v w)) = v"
    and "now (change v w) = now w"
  using assms
  by (auto simp: timers_ok_def change_def run_actions_def perform_def debounce_cleanup_def
      debounce_effect_def clearTimeout_def setTimeout_def truthy_ref_def Let_def
      split: option.splits list.splits)

lemma advance_none:
  assumes "timers w = []"
  shows "advance d w = w\<lparr>now := now w + d\<rparr>"
  using assms by (simp add: advance_def Let_def)

lemma advance_early:
  assumes "timers w = [(h, due, v)]" "now w + d < due"
  shows "advance d w = w\<lparr>now := now w + d\<rparr>"
  using assms by (simp add: advance_def Let_def)

lemma advance_fire:
  assumes "timers w = [(h, due, v)]" "due \<le> now w + d"
  shows "advance d w = timer_fire v (w\<lparr>now := now w + d, timers := []\<rparr>)"
  using assms by (simp add: advance_def Let_def)

lemma timers_ok_advance:
  assumes "timers_ok w"
  shows "timers_ok (advance d w)"
proof (cases "timers w")
  case Nil
  with assms show ?thesis by (simp add: advance_none timers_ok_def)
next
  case (Cons t ts)
  with assms obtain h due v where t: "timers w = [(h, due, v)]"
    by (cases t) (auto simp: timers_ok_def)
  show ?thesis
  proof (cases "due \<le> now w + d")
    case True
    have "timers_ok (w\<lparr>now := now w + d, timers := []\<rparr>)"
      using assms by (simp add: timers_ok_def)
    then show ?thesis
      using timers_ok_view [OF timer_fire_frame(1)] by (simp add: advance_fire [OF t True])
  next
    case False
    then have lt: "now w + d < due" by simp
    have "advance d w = w\<lparr>now := now w + d\<rparr>" by (rule advance_early [OF t lt])
    then show ?thesis using assms t lt by (auto simp: timers_ok_def split: option.splits)
  qed
qed

lemma timers_ok_step: "timers_ok w \<Longrightarrow> timers_ok (step e w)"
proof (cases e)
  case (Change v)
  assume "timers_ok w"
  then show ?thesis using Change timers_ok_change(1) [of w v]
    by (cases "v = customerId (app w)") (simp_all add: change_def)
next
  case (Advance d)
  assume "timers_ok w" then show ?thesis using Advance by (simp add: timers_ok_advance)
next
  case (Resolve k out)
  assume "timers_ok w" then show ?thesis using Resolve timers_ok_view [OF resolve_frame(1)] by simp
next
  case (ViewChange vw)
  assume "timers_ok w" then show ?thesis
    using ViewChange timers_ok_view [OF timer_view_run_actions [OF nav_quiet(1)]] by simp
next
  case (ViewLedger l)
  assume "timers_ok w" then show ?thesis
    using ViewLedger timers_ok_view [OF timer_view_run_actions [OF nav_quiet(3)]] by simp
next
  case (Refresh cid)
  assume "timers_ok w" then show ?thesis
    using Refresh timers_ok_view [OF call_fetch_frame(1)] by simp
qed

lemma timers_ok_mount: "timers_ok mount"
proof -
  have "timers_ok (debounce_effect
          \<lparr>app = initial_state, mounted = True, now = 0, timers = [], next_timer = 1,
           inflight = [], requests = [], published = []\<rparr>)"
    by (simp add: timers_ok_def debounce_effect_def initial_state_def truthy_ref_def setTimeout_def)
  then show ?thesis
    unfolding mount_def using timers_ok_view [OF call_fetch_frame(1)] by simp
qed

lemma timers_ok_run: "timers_ok w \<Longrightarrow> timers_ok (run es w)"
  unfolding run_def by (induction es arbitrary: w) (simp_all add: timers_ok_step)

lemma timers_ok_reachable: "timers_ok (run es mount)"
  by (rule timers_ok_run [OF timers_ok_mount])


lemma run_append: "run (xs @ ys) w = run ys (run xs w)"
  by (simp add: run_def)

lemma run_Cons: "run (e # es) w = run es (step e w)"
  by (simp add: run_def)

lemma run_Nil: "run [] w = w"
  by (simp add: run_def)

lemma timer_view_step:
  assumes "\<not> is_change e" "\<And>d. e \<noteq> Advance d"
  shows "timer_view (step e w) = timer_view w" "published (step e w) = published w"
  using assms
  by (cases e; simp add: resolve_frame call_fetch_frame timer_view_run_actions
      published_run_actions nav_quiet)+

lemma timer_view_all:
  assumes "timer_view w' = timer_view w"
  shows "timers w' = timers w" "now w' = now w" "customerId (app w') = customerId (app w)"
  using assms by (simp_all add: timer_view_def)

lemma gap_idle:
  assumes "timers_ok w" "timers w = []" "no_input gap"
  shows "published (run gap w) = published w \<and> timers (run gap w) = [] \<and>
         customerId (app (run gap w)) = customerId (app w) \<and> timers_ok (run gap w)"
  using assms
proof (induction gap arbitrary: w)
  case Nil
  then show ?case by (simp add: run_Nil)
next
  case (Cons e gap)
  from Cons.prems have ne: "\<not> is_change e" and rest: "no_input gap"
    by (simp_all add: no_input_def)
  have ok': "timers_ok (step e w)" by (rule timers_ok_step [OF Cons.prems(1)])
  have s: "published (step e w) = published w \<and> timers (step e w) = [] \<and>
           customerId (app (step e w)) = customerId (app w)"
  proof (cases "\<exists>d. e = Advance d")
    case True
    then obtain d where "e = Advance d" by blast
    then show ?thesis using Cons.prems(2) by (simp add: advance_none)
  next
    case False
    then have na: "\<And>d. e \<noteq> Advance d" by blast
    show ?thesis
      using timer_view_step [OF ne na, of w] timer_view_all [of "step e w" w] Cons.prems(2)
      by simp
  qed
  from Cons.IH [OF ok' _ rest] s show ?case by (simp add: run_Cons)
qed

lemma gap_pending:
  assumes "timers_ok w" "timers w = [(h, due, u)]" "no_input gap"
  shows "timers_ok (run gap w) \<and> customerId (app (run gap w)) = customerId (app w) \<and>
         (if now w + elapsed gap < due
          then published (run gap w) = published w \<and> timers (run gap w) = [(h, due, u)] \<and>
               now (run gap w) = now w + elapsed gap
          else published (run gap w) = published w @ [trim u] \<and> timers (run gap w) = [])"
  using assms
proof (induction gap arbitrary: w)
  case Nil
  then show ?case by (auto simp: run_Nil timers_ok_def)
next
  case (Cons e gap)
  from Cons.prems have ne: "\<not> is_change e" and rest: "no_input gap"
    by (simp_all add: no_input_def)
  have ok': "timers_ok (step e w)" by (rule timers_ok_step [OF Cons.prems(1)])
  show ?case
  proof (cases "\<exists>d. e = Advance d")
    case False
    then have na: "\<And>d. e \<noteq> Advance d" by blast
    note tv = timer_view_step [OF ne na, of w]
    note f = timer_view_all [OF tv(1)]
    have el: "elapsed (e # gap) = elapsed gap" using na ne by (cases e) auto
    have t': "timers (step e w) = [(h, due, u)]" using f(1) Cons.prems(2) by simp
    from Cons.IH [OF ok' t' rest] tv(2) f el show ?thesis by (simp add: run_Cons)
  next
    case True
    then obtain d where e: "e = Advance d" by blast
    show ?thesis
    proof (cases "now w + d < due")
      case True
      have a: "advance d w = w\<lparr>now := now w + d\<rparr>" by (rule advance_early [OF Cons.prems(2) True])
      have st: "step e w = w\<lparr>now := now w + d\<rparr>" using a e by simp
      have t': "timers (step e w) = [(h, due, u)]" using st Cons.prems(2) by simp
      have nw: "now (step e w) = now w + d" "published (step e w) = published w"
        "customerId (app (step e w)) = customerId (app w)"
        by (simp_all add: st)
      have el: "elapsed (e # gap) = d + elapsed gap" using e by simp
      from Cons.IH [OF ok' t' rest] show ?thesis
        by (simp add: run_Cons nw el add.assoc)
    next
      case False
      then have le: "due \<le> now w + d" by simp
      let ?q = "w\<lparr>now := now w + d, timers := []\<rparr>"
      have a: "advance d w = timer_fire u ?q" by (rule advance_fire [OF Cons.prems(2) le])
      note tf = timer_fire_frame [of u ?q]
      note f = timer_view_all [OF tf(1)]
      have st: "step e w = timer_fire u ?q" using a e by simp
      have t': "timers (step e w) = []" using st f(1) by simp
      have p: "published (step e w) = published w @ [trim u]" using st tf(2) by simp
      have c: "customerId (app (step e w)) = customerId (app w)" using st f(3) by simp
      have el: "elapsed (e # gap) = d + elapsed gap" using e by simp
      have late: "\<not> now w + elapsed (e # gap) < due" using False el by simp
      from gap_idle [OF ok' t' rest] show ?thesis
        by (simp add: run_Cons p c late)
    qed
  qed
qed

lemma keystroke:
  assumes ok: "timers_ok w" and ne: "v \<noteq> customerId (app w)"
    and gap: "no_input gap" and d: "elapsed gap < 500"
  shows "timers_ok (run (Change v # gap) w)"
    and "published (run (Change v # gap) w) = published w"
    and "customerId (app (run (Change v # gap) w)) = v"
proof -
  let ?c = "change v w"
  have t: "timers ?c = [(next_timer w, now w + 500, v)]" by (rule timers_ok_change(2) [OF ok ne])
  have n: "now ?c = now w" by (rule timers_ok_change(5) [OF ok ne])
  note g = gap_pending [OF timers_ok_change(1) [OF ok ne] t gap]
  show "timers_ok (run (Change v # gap) w)" using g by (simp add: run_Cons)
  show "published (run (Change v # gap) w) = published w"
    using g n d timers_ok_change(3) [OF ok ne] by (simp add: run_Cons)
  show "customerId (app (run (Change v # gap) w)) = v"
    using g timers_ok_change(4) [OF ok ne] by (simp add: run_Cons)
qed

lemma burst:
  assumes "timers_ok w" "real_changes (customerId (app w)) (map fst ks)"
    "list_all (\<lambda>(u, gap). no_input gap \<and> elapsed gap < 500) ks"
  shows "timers_ok (run (typing ks) w) \<and> published (run (typing ks) w) = published w \<and>
         customerId (app (run (typing ks) w)) = last (customerId (app w) # map fst ks)"
  using assms
proof (induction ks arbitrary: w)
  case Nil
  then show ?case by (simp add: run_Nil)
next
  case (Cons k ks)
  obtain v gap where k: "k = (v, gap)" by (cases k)
  from Cons.prems k have ne: "v \<noteq> customerId (app w)" and gap: "no_input gap"
    and d: "elapsed gap < 500"
    and rc: "real_changes v (map fst ks)"
    and rest: "list_all (\<lambda>(u, gap). no_input gap \<and> elapsed gap < 500) ks"
    by simp_all
  let ?w = "run (Change v # gap) w"
  note ks = keystroke [OF Cons.prems(1) ne gap d]
  have "timers_ok (run (typing ks) ?w) \<and> published (run (typing ks) ?w) = published ?w \<and>
        customerId (app (run (typing ks) ?w)) = last (customerId (app ?w) # map fst ks)"
    using Cons.IH [of ?w] ks rc rest by simp
  moreover have "run (typing (k # ks)) w = run (typing ks) ?w"
    using k run_append [of "Change v # gap" "typing ks" w] by simp
  ultimately show ?case using k ks by simp
qed

lemma quiet_period:
  assumes ok: "timers_ok w" and ne: "v \<noteq> customerId (app w)" and d: "500 \<le> d"
  shows "advance d (change v w) =
           timer_fire v ((change v w)\<lparr>now := now w + d, timers := []\<rparr>)"
proof -
  let ?c = "change v w"
  have t: "timers ?c = [(next_timer w, now w + 500, v)]" by (rule timers_ok_change(2) [OF ok ne])
  have n: "now ?c = now w" by (rule timers_ok_change(5) [OF ok ne])
  have le: "now w + 500 \<le> now ?c + d" using d n by simp
  show ?thesis using advance_fire [OF t le] n by simp
qed

lemma app_perform: "mounted w \<Longrightarrow> app (perform a w) = set_state a (app w)"
  by (cases a) (simp_all add: perform_def Let_def)

lemma mounted_perform: "mounted (perform a w) = mounted w"
  by (cases a) (simp_all add: perform_def Let_def)

lemma app_run_actions: "mounted w \<Longrightarrow> app (run_actions acts w) = fold set_state acts (app w)"
  unfolding run_actions_def
  by (induction acts arbitrary: w) (simp_all add: app_perform mounted_perform)

lemma dead_perform: "\<not> mounted w \<Longrightarrow> app (perform a w) = app w"
  by (cases a) (simp_all add: perform_def Let_def)

lemma dead_run_actions: "\<not> mounted w \<Longrightarrow> app (run_actions acts w) = app w"
  unfolding run_actions_def
  by (induction acts arbitrary: w) (simp_all add: dead_perform mounted_perform)

lemma mounted_reachable: "mounted (run es mount)"
  using timers_ok_reachable [of es] by (simp add: timers_ok_def)



section \<open>What the forms let through\<close>
lemma digit_not_ws: "is_digit c \<Longrightarrow> \<not> is_ws c"
  by (auto simp: is_digit_def is_ws_def)

lemma valid_float_trimStart: "valid_float s \<Longrightarrow> trimStart s = s"
proof (cases s)
  case Nil
  then show "valid_float s \<Longrightarrow> trimStart s = s" by (simp add: trimStart_def)
next
  case (Cons c r)
  assume v: "valid_float s"
  have "\<not> is_ws c"
  proof (cases "c = CHR ''-'' \<or> c = CHR ''.''")
    case True
    then show ?thesis by (auto simp: is_ws_def)
  next
    case False
    then have "is_digit c"
      using v Cons by (auto simp: valid_float_def Let_def split: list.splits if_splits)
    then show ?thesis by (rule digit_not_ws)
  qed
  then show "trimStart s = s" using Cons by (simp add: trimStart_def)
qed

lemma read_decimal_Infinity: "take 8 u = ''Infinity'' \<Longrightarrow> read_decimal u = None"
  by (cases u) (auto simp: read_decimal_def is_digit_def)

lemma number_value_parseFloat:
  assumes "number_value s = Some v"
  shows "\<exists>neg m e. parseFloat s = to_number neg m e \<and> \<not> rounds_to_infinity m e \<and>
           v = decimal_value neg m e"
proof -
  from assms have vf: "valid_float s"
    by (simp add: number_value_def split: if_splits)
  obtain neg u where rs: "read_sign s = (neg, u)" by (cases "read_sign s")
  from assms vf rs obtain m e where rd: "read_decimal u = Some (m, e)"
    and fin: "\<not> rounds_to_infinity m e" and v: "v = decimal_value neg m e"
    by (auto simp: number_value_def split: option.splits if_splits)
  have ni: "take 8 u \<noteq> ''Infinity''" using rd read_decimal_Infinity [of u] by auto
  have "parseFloat s = to_number neg m e"
    using ni rd rs by (simp add: parseFloat_def valid_float_trimStart [OF vf])
  with fin v show ?thesis by blast
qed

lemma to_number_not_NaN: "to_number neg m e \<noteq> NaN"
  by (simp add: to_number_def)

lemma decimal_value_sign:
  "(0 < decimal_value neg m e) = (0 < signed neg m)"
  "(0 \<le> decimal_value neg m e) = (0 \<le> signed neg m)"
proof -
  let ?p = "(if 0 \<le> e then 10 ^ nat e else 1 / 10 ^ nat (- e)) :: rat"
  let ?s = "of_int (signed neg m) :: rat"
  have p: "0 < ?p" by simp
  have "(0 * ?p < ?s * ?p) = (0 < ?s)" by (rule mult_less_cancel_right_pos [OF p])
  then show "(0 < decimal_value neg m e) = (0 < signed neg m)"
    by (simp add: decimal_value_def)
  have "(0 * ?p \<le> ?s * ?p) = (0 \<le> ?s)" by (rule mult_le_cancel_right_pos [OF p])
  then show "(0 \<le> decimal_value neg m e) = (0 \<le> signed neg m)"
    by (simp add: decimal_value_def)
qed

lemma no_underflow:
  assumes "1 / 100 \<le> decimal_value neg m e"
  shows "\<not> rounds_to_zero m e"
proof
  assume z: "rounds_to_zero m e"
  then have e: "e < 0" and le: "m * 2 ^ 1075 \<le> 10 ^ nat (- e)"
    by (simp_all add: rounds_to_zero_def)
  from assms have pos: "0 < signed neg m" using decimal_value_sign(1) [of neg m e] by simp
  then have s: "signed neg m = int m" and m: "0 < m" by (auto simp: signed_def split: if_splits)
  from assms e s have "(10::rat) ^ nat (- e) \<le> 100 * of_nat m"
    by (simp add: decimal_value_def field_simps)
  then have "(of_nat (10 ^ nat (- e)) :: rat) \<le> of_nat (100 * m)" by simp
  then have "10 ^ nat (- e) \<le> 100 * m" by (simp only: of_nat_le_iff)
  with le have "m * 2 ^ 1075 \<le> m * 100" by simp
  with m have "(2::nat) ^ 1075 \<le> 100" by simp
  then show False by simp
qed

lemma positive_number:
  assumes "\<not> rounds_to_infinity m e" "1 / 100 \<le> decimal_value neg m e"
  shows "is_positive (to_number neg m e)"
proof -
  from assms(2) have pos: "0 < signed neg m" using decimal_value_sign(1) [of neg m e] by simp
  then have "m \<noteq> 0" by (auto simp: signed_def split: if_splits)
  with assms(1) no_underflow [OF assms(2)] pos show ?thesis by (simp add: to_number_def)
qed

lemma nonnegative_number:
  assumes "\<not> rounds_to_infinity m e" "0 \<le> decimal_value neg m e"
  shows "\<not> lt_zero (to_number neg m e)"
  using assms decimal_value_sign(2) [of neg m e] by (simp add: to_number_def)

lemma field_positive:
  assumes "\<not> number_field_invalid mn mx stp s" "1 / 100 \<le> mn"
  shows "is_positive (parseFloat s)"
proof -
  from assms(1) obtain v where nv: "number_value s = Some v" and v: "mn \<le> v"
    by (auto simp: number_field_invalid_def split: option.splits)
  from number_value_parseFloat [OF nv] obtain neg m e where
    p: "parseFloat s = to_number neg m e" and fin: "\<not> rounds_to_infinity m e"
    and d: "v = decimal_value neg m e" by blast
  from v assms(2) d have "1 / 100 \<le> decimal_value neg m e" by simp
  from positive_number [OF fin this] p show ?thesis by simp
qed

lemma field_nonnegative:
  assumes "\<not> number_field_invalid mn mx stp s" "0 \<le> mn"
  shows "parseFloat s \<noteq> NaN \<and> \<not> lt_zero (parseFloat s)"
proof -
  from assms(1) obtain v where nv: "number_value s = Some v" and v: "mn \<le> v"
    by (auto simp: number_field_invalid_def split: option.splits)
  from number_value_parseFloat [OF nv] obtain neg m e where
    p: "parseFloat s = to_number neg m e" and fin: "\<not> rounds_to_infinity m e"
    and d: "v = decimal_value neg m e" by blast
  from v assms(2) d have "0 \<le> decimal_value neg m e" by simp
  from nonnegative_number [OF fin this] p to_number_not_NaN [of neg m e] show ?thesis by simp
qed

lemma positive_not_le_zero: "is_positive x \<Longrightarrow> \<not> le_zero x"
  by (cases x) auto

lemma payment_submitted_is_well_formed:
  assumes "\<not> payment_form_blocked f"
  shows "\<not> payment_invalid f" "\<not> payment_malformed f"
proof -
  from assms have sel: "selectedLoanId f \<noteq> []" and ty: "paymentType f \<noteq> []"
    and nf: "\<not> number_field_invalid (1 / 100) None (1 / 100) (paymentAmount f)"
    by (simp_all add: payment_form_blocked_def)
  have pos: "is_positive (parseFloat (paymentAmount f))" by (rule field_positive [OF nf]) simp
  show "\<not> payment_invalid f" using sel ty positive_not_le_zero [OF pos] by (simp add: payment_invalid_def)
  show "\<not> payment_malformed f" using sel ty pos by (simp add: payment_malformed_def)
qed

lemma loan_submitted_malformed:
  assumes "\<not> loan_form_blocked g" "loan_malformed g"
  shows "loan_invalid g"
proof -
  from assms(1) have a: "\<not> number_field_invalid 1 None 1 (loanAmount g)"
    and r: "\<not> number_field_invalid 0 None (1 / 10) (interestRateYearly g)"
    and p: "\<not> number_field_invalid 1 (Some 30) 1 (loanPeriodYears g)"
    by (simp_all add: loan_form_blocked_def)
  have "is_positive (parseFloat (loanAmount g))" by (rule field_positive [OF a]) simp
  moreover have "is_positive (parseFloat (loanPeriodYears g))" by (rule field_positive [OF p]) simp
  moreover have "parseFloat (interestRateYearly g) \<noteq> NaN \<and> \<not> lt_zero (parseFloat (interestRateYearly g))"
    by (rule field_nonnegative [OF r]) simp
  ultimately have "trim (la_customerId g) = []" using assms(2) by (simp add: loan_malformed_def)
  then show ?thesis by (simp add: loan_invalid_def)
qed

section \<open>Request cycles of the three fetching handlers\<close>










section \<open>The refresh callback of the forms\<close>

text \<open>
  The payment form destructures the prop name that \<open>App\<close> passes, and calls it once
  after a 2xx response with an object body.
\<close>

lemma payment_refreshes_once:
  assumes "ok r" "body r = BodyObject result"
  shows "filter is_OnPaymentRecorded
     (fst (payment_handleSubmit_settle (prop_callback (PaymentForm_props s) ''onPaymentRecorded'') (Resolved r)))
     = [OnPaymentRecorded (debouncedCustomerId s)]"
  using assms
  by (simp add: prop_callback_def PaymentForm_props_def payment_handleSubmit_settle_def
      payment_try_def payment_catch_def payment_logs_def)

text \<open>
  C3. After a successful write a form calls the coordinator's refresh exactly once. The
  loan application form does not: \<open>App\<close> passes the callback under the name
  \<open>onLoanApplied\<close>, the form destructures \<open>onLoanCreated\<close>, which is undefined, so for
  every state of \<open>App\<close> and every outcome of the POST, a 2xx response included, the
  handler makes no call of the callback.
\<close>

theorem loan_application_never_calls_refresh: "length (filter is_OnLoanCreated
     (fst (loan_handleSubmit_settle (prop_callback (LoanApplication_props s) ''onLoanCreated'') out))) = 0"
  by (simp add: prop_callback_def LoanApplication_props_def loan_handleSubmit_settle_def
      loan_try_def loan_catch_def split: fetch_outcome.splits json_result.splits)

section \<open>Failure of the overview request\<close>

text \<open>
  C4 as stated fails: for a 404 whose body is \<open>{"message":"customer not found"}\<close> the
  error that is set is not the body's message.
\<close>

theorem overview_404_message_not_verbatim:
  "error (fold set_state (overview_cycle ''CUST404''
      (Resolved \<lparr>status = 404, body = BodyObject \<lparr>message = Some ''customer not found'', customer_name = None, loans = None\<rparr>\<rparr>)) initial_state)
   \<noteq> Some ''customer not found''"
  by (simp add: overview_cycle_def fetchCustomerOverview_start_def fetchCustomerOverview_resume_def fetchCustomerOverview_settle_def overview_try_def
      overview_catch_def ok_def)

text \<open>
  C4, amended. For every non-2xx overview response the error becomes
  \<open>Failed to load customer data: m. Please check the Customer ID.\<close>, where \<open>m\<close> is the
  \<open>message\<close> field of the body when the body is an object that has a non-empty one,
  \<open>HTTP error! status: \<close> followed by the status code when it is an object without one,
  and the message of the thrown error when the body is not readable as an object; the
  loans and the customer name are cleared and the loading flag is reset.
\<close>

theorem overview_rejection_sets_wrapped_message:
  assumes "\<not> ok r"
  shows "let s' = fold set_state (fetchCustomerOverview_resume cid (Resolved r)) s;
             m = (case body r of
                    BodyObject errorData \<Rightarrow>
                      (case message errorData of
                         None \<Rightarrow> ''HTTP error! status: '' @ show_nat (status r)
                       | Some t \<Rightarrow> if t = [] then ''HTTP error! status: '' @ show_nat (status r) else t)
                  | BodyError e \<Rightarrow> e
                  | BodyNull \<Rightarrow> null_read ''message'')
         in error s' = Some (''Failed to load customer data: '' @ m @ ''. Please check the Customer ID.'')
            \<and> customerLoans s' = [] \<and> customerName s' = [] \<and> isLoading s' = False"
  using assms
  by (simp add: fetchCustomerOverview_resume_def fetchCustomerOverview_settle_def overview_try_def
      overview_catch_def Let_def split: json_result.splits option.splits)


theorem overview_rejection_sets_wrapped_message_witness:
  "\<not> ok \<lparr>status = 404, body = BodyObject \<lparr>message = Some ''customer not found'', customer_name = None, loans = None\<rparr>\<rparr> \<and>
   error (fold set_state (fetchCustomerOverview_resume ''CUST404''
      (Resolved \<lparr>status = 404, body = BodyObject \<lparr>message = Some ''customer not found'', customer_name = None, loans = None\<rparr>\<rparr>)) initial_state)
   = Some ''Failed to load customer data: customer not found. Please check the Customer ID.'' \<and>
   customerLoans (fold set_state (fetchCustomerOverview_resume ''CUST404''
      (Resolved \<lparr>status = 404, body = BodyObject \<lparr>message = Some ''customer not found'', customer_name = None, loans = None\<rparr>\<rparr>)) initial_state)
   = []"
proof -
  let ?r = "\<lparr>status = 404, body = BodyObject \<lparr>message = Some ''customer not found'', customer_name = None, loans = None\<rparr>\<rparr>"
  have h: "\<not> ok ?r" by (simp add: ok_def)
  show ?thesis using h overview_rejection_sets_wrapped_message [OF h, of "''CUST404''" initial_state] by (simp add: Let_def)
qed

section \<open>Validation in the forms\<close>

text \<open>
  A handler that finds its fields invalid sets the failure flag and the inline message
  and does nothing else; in particular it posts nothing.
\<close>

lemma payment_invalid_reports_inline:
  assumes "payment_invalid f"
  shows "\<exists>fb. payment_handleSubmit_start f = [SetIsPaymentSuccess (Some False), SetResponseFeedback (Some fb)]"
  using assms by (simp add: payment_handleSubmit_start_def)

lemma loan_invalid_reports_inline:
  assumes "loan_invalid f"
  shows "\<exists>sm. loan_handleSubmit_start f = [SetIsSubmissionSuccess (Some False), SetSubmissionMessage (Some sm)]"
  using assms by (simp add: loan_handleSubmit_start_def)

text \<open>
  C7 as stated fails: with a loan selected and the amount left empty, the submit is
  stopped by the form (the amount is a required number field), so the handler does not
  run and reports no validation error.
\<close>

theorem missing_amount_is_stopped_by_the_form:
  "payment_malformed
     \<lparr>selectedLoanId = ''L123'', paymentAmount = [], paymentType = ''EMI'',
      responseFeedback = None, isPaymentSuccess = None, isProcessingPayment = False\<rparr> \<and>
   payment_submit
     \<lparr>selectedLoanId = ''L123'', paymentAmount = [], paymentType = ''EMI'',
      responseFeedback = None, isPaymentSuccess = None, isProcessingPayment = False\<rparr> = None"
  by (simp add: payment_malformed_def payment_submit_def payment_form_blocked_def
      number_field_invalid_def number_value_def valid_float_def parseFloat_def read_decimal_def
      trimStart_def)

text \<open>
  C7, amended. A submit of a form whose fields are malformed or missing (no loan
  selected, an amount that is not a positive number, no payment type; no customer id, a
  loan amount or period that is not a positive number, a rate that is not a number or is
  negative) makes no network call: either the form itself stops it, and the handler does
  not run, or the handler runs, reports the validation error inline and returns.
\<close>

theorem malformed_submission_makes_no_request:
  "(payment_malformed f \<longrightarrow>
      payment_submit f = None \<or>
      (\<exists>fb. payment_submit f = Some [SetIsPaymentSuccess (Some False), SetResponseFeedback (Some fb)])) \<and>
   (loan_malformed g \<longrightarrow>
      loan_submit g = None \<or>
      (\<exists>sm. loan_submit g = Some [SetIsSubmissionSuccess (Some False), SetSubmissionMessage (Some sm)]))"
proof (intro conjI impI)
  assume "payment_malformed f"
  then have "payment_form_blocked f" using payment_submitted_is_well_formed(2) [of f] by blast
  then show "payment_submit f = None \<or>
      (\<exists>fb. payment_submit f = Some [SetIsPaymentSuccess (Some False), SetResponseFeedback (Some fb)])"
    by (simp add: payment_submit_def)
next
  assume m: "loan_malformed g"
  show "loan_submit g = None \<or>
      (\<exists>sm. loan_submit g = Some [SetIsSubmissionSuccess (Some False), SetSubmissionMessage (Some sm)])"
  proof (cases "loan_form_blocked g")
    case True
    then show ?thesis by (simp add: loan_submit_def)
  next
    case False
    from loan_submitted_malformed [OF False m] False show ?thesis
      by (simp add: loan_submit_def loan_handleSubmit_start_def)
  qed
qed

theorem malformed_submission_makes_no_request_witness:
  "payment_malformed
     \<lparr>selectedLoanId = ''L123'', paymentAmount = [], paymentType = ''EMI'',
      responseFeedback = None, isPaymentSuccess = None, isProcessingPayment = False\<rparr> \<and>
   loan_malformed
     \<lparr>la_customerId = ''   '', loanAmount = ''100000'', loanPeriodYears = ''5'',
      interestRateYearly = ''10.0'', submissionMessage = None, isSubmissionSuccess = None,
      isSubmitting = False\<rparr> \<and>
   payment_submit
     \<lparr>selectedLoanId = ''L123'', paymentAmount = [], paymentType = ''EMI'',
      responseFeedback = None, isPaymentSuccess = None, isProcessingPayment = False\<rparr> = None \<and>
   \<not> loan_form_blocked
     \<lparr>la_customerId = ''   '', loanAmount = ''100000'', loanPeriodYears = ''5'',
      interestRateYearly = ''10.0'', submissionMessage = None, isSubmissionSuccess = None,
      isSubmitting = False\<rparr> \<and>
   (\<exists>sm. loan_submit
     \<lparr>la_customerId = ''   '', loanAmount = ''100000'', loanPeriodYears = ''5'',
      interestRateYearly = ''10.0'', submissionMessage = None, isSubmissionSuccess = None,
      isSubmitting = False\<rparr>
      = Some [SetIsSubmissionSuccess (Some False), SetSubmissionMessage (Some sm)])"
proof -
  let ?f = "\<lparr>selectedLoanId = ''L123'', paymentAmount = [], paymentType = ''EMI'',
      responseFeedback = None, isPaymentSuccess = None, isProcessingPayment = False\<rparr>"
  let ?g = "\<lparr>la_customerId = ''   '', loanAmount = ''100000'', loanPeriodYears = ''5'',
      interestRateYearly = ''10.0'', submissionMessage = None, isSubmissionSuccess = None,
      isSubmitting = False\<rparr>"
  have h1: "payment_malformed ?f"
    by (simp add: payment_malformed_def parseFloat_def read_decimal_def trimStart_def)
  have h2: "loan_malformed ?g"
    by (simp add: loan_malformed_def trim_def is_ws_def)
  have b: "payment_submit ?f = None"
    by (simp add: payment_submit_def payment_form_blocked_def number_field_invalid_def
        number_value_def valid_float_def)
  have n1: "number_value ''100000'' = Some 100000"
    by (simp add: number_value_def valid_float_def read_decimal_def rounds_to_infinity_def
        decimal_value_def is_digit_def digits_val_def digit_val_def signed_def)
  have n2: "number_value ''10.0'' = Some 10"
    by (simp add: number_value_def valid_float_def read_decimal_def rounds_to_infinity_def
        decimal_value_def is_digit_def digits_val_def digit_val_def signed_def)
  have n3: "number_value ''5'' = Some 5"
    by (simp add: number_value_def valid_float_def read_decimal_def rounds_to_infinity_def
        decimal_value_def is_digit_def digits_val_def digit_val_def signed_def)
  have s1: "\<not> step_mismatch 1 1 100000" by (simp add: step_mismatch_def)
  have s2: "\<not> step_mismatch 0 (1 / 10) 10" by (simp add: step_mismatch_def)
  have s3: "\<not> step_mismatch 1 1 5" by (simp add: step_mismatch_def)
  have f1: "\<not> number_field_invalid 1 None 1 ''100000''"
    unfolding number_field_invalid_def n1 using s1 by simp
  have f2: "\<not> number_field_invalid 0 None (1 / 10) ''10.0''"
    unfolding number_field_invalid_def n2 using s2 by simp
  have f3: "\<not> number_field_invalid 1 (Some 30) 1 ''5''"
    unfolding number_field_invalid_def n3 using s3 by simp
  have nb: "\<not> loan_form_blocked ?g"
    using f1 f2 f3 by (simp add: loan_form_blocked_def)
  then have ns: "loan_submit ?g \<noteq> None" by (simp add: loan_submit_def)
  from malformed_submission_makes_no_request [of ?f ?g] h2 ns
  have "\<exists>sm. loan_submit ?g
          = Some [SetIsSubmissionSuccess (Some False), SetSubmissionMessage (Some sm)]"
    by blast
  with h1 h2 b nb show ?thesis by blast
qed

section \<open>The debounce window\<close>

text \<open>
  C5. From any state the application can reach, let the user make a series of changes
  to the input, each to a text other than the one before it and each less than 500 ms
  after the previous one, and then leave the input alone for at least 500 ms; meanwhile
  requests may settle and the user may navigate. Over the whole series exactly one
  publication is made, of the trimmed text of the last change; the log of publications
  only grows, so nothing was published in between.
\<close>

theorem debounce_window_publishes_once:
  assumes rc: "real_changes (customerId (app (run es mount))) (map fst ks @ [v])"
    and fast: "list_all (\<lambda>(u, gap). no_input gap \<and> elapsed gap < 500) ks"
    and gap: "no_input gap" and quiet: "500 \<le> elapsed gap"
  shows "published (run (typing ks @ Change v # gap) (run es mount))
           = published (run es mount) @ [trim v]"
proof -
  let ?w = "run es mount"
  let ?b = "run (typing ks) ?w"
  have rc_split: "real_changes c (xs @ [x]) = (real_changes c xs \<and> x \<noteq> last (c # xs))" for c xs x
    by (induction xs arbitrary: c) auto
  from rc have rc1: "real_changes (customerId (app ?w)) (map fst ks)"
    and ne0: "v \<noteq> last (customerId (app ?w) # map fst ks)"
    by (simp_all add: rc_split)
  have b: "timers_ok ?b" "published ?b = published ?w"
      "customerId (app ?b) = last (customerId (app ?w) # map fst ks)"
    using burst [OF timers_ok_reachable rc1 fast] by simp_all
  have ne: "v \<noteq> customerId (app ?b)" using ne0 b(3) by simp
  let ?c = "change v ?b"
  have t: "timers ?c = [(next_timer ?b, now ?b + 500, v)]" by (rule timers_ok_change(2) [OF b(1) ne])
  have n: "now ?c = now ?b" by (rule timers_ok_change(5) [OF b(1) ne])
  from gap_pending [OF timers_ok_change(1) [OF b(1) ne] t gap] quiet n
  have "published (run gap ?c) = published ?c @ [trim v]" by simp
  then show ?thesis
    using timers_ok_change(3) [OF b(1) ne] b(2) by (simp add: run_append run_Cons)
qed

theorem debounce_window_publishes_once_witness:
  "real_changes (customerId (app (run [] mount))) (map fst [(''A'', [Advance 100]), (''AB'', [Advance 100])] @ [''ABC'']) \<and>
   list_all (\<lambda>(u, gap). no_input gap \<and> elapsed gap < 500) [(''A'', [Advance 100]), (''AB'', [Advance 100])] \<and>
   no_input [Advance 500] \<and> 500 \<le> elapsed [Advance 500] \<and>
   published (run (typing [(''A'', [Advance 100]), (''AB'', [Advance 100])] @ Change ''ABC'' # [Advance 500]) (run [] mount))
     = published (run [] mount) @ [''ABC'']"
proof -
  have h1: "real_changes (customerId (app (run [] mount))) (map fst [(''A'', [Advance 100]), (''AB'', [Advance 100])] @ [''ABC''])"
    by code_simp
  have h2: "list_all (\<lambda>(u, gap). no_input gap \<and> elapsed gap < 500) [(''A'', [Advance 100]), (''AB'', [Advance 100])]"
    by (simp add: no_input_def)
  have h3: "no_input [Advance 500]" by (simp add: no_input_def)
  have h4: "500 \<le> elapsed [Advance 500]" by simp
  have t: "trim ''ABC'' = ''ABC''" by code_simp
  from debounce_window_publishes_once [OF h1 h2 h3 h4] have
    "published (run (typing [(''A'', [Advance 100]), (''AB'', [Advance 100])] @ Change ''ABC'' # [Advance 500]) (run [] mount))
     = published (run [] mount) @ [''ABC'']" unfolding t .
  with h1 h2 h3 h4 show ?thesis by blast
qed


section \<open>Teardown\<close>

lemma timer_view_fields:
  assumes "timer_view w' = timer_view w"
  shows "timers w' = timers w" "mounted w' = mounted w"
  using assms by (simp_all add: timer_view_def)

lemma mounted_run_actions: "mounted (run_actions acts w) = mounted w"
  unfolding run_actions_def by (induction acts arbitrary: w) (simp_all add: mounted_perform)

lemma unmount_clears:
  assumes "timers_ok w"
  shows "timers (unmount w) = []" "\<not> mounted (unmount w)"
    "published (unmount w) = published w" "app (unmount w) = app w"
  using assms
  by (auto simp: unmount_def debounce_cleanup_def clearTimeout_def truthy_ref_def timers_ok_def
      split: list.splits option.splits)

lemma dead_step:
  assumes dead: "\<not> mounted w" and none: "timers w = []"
  shows "\<not> mounted (step e w) \<and> timers (step e w) = [] \<and>
         published (step e w) = published w \<and> app (step e w) = app w"
proof (cases e)
  case (Change v)
  then show ?thesis using dead none by (simp add: change_def)
next
  case (Advance d)
  then show ?thesis using dead none by (simp add: advance_none)
next
  case (Resolve k out)
  have "app (resolve k out w) = app w"
    using dead by (simp add: resolve_def dead_run_actions)
  then show ?thesis
    using Resolve dead none timer_view_fields [OF resolve_frame(1), of k out w] resolve_frame(2) [of k out w]
    by simp
next
  case (ViewChange vw)
  then show ?thesis
    using dead none timer_view_fields [OF timer_view_run_actions [OF nav_quiet(1)], of vw w]
    by (simp add: published_run_actions nav_quiet dead_run_actions)
next
  case (ViewLedger l)
  then show ?thesis
    using dead none timer_view_fields [OF timer_view_run_actions [OF nav_quiet(3)], of l w]
    by (simp add: published_run_actions nav_quiet dead_run_actions)
next
  case (Refresh cid)
  have "app (call_fetchCustomerOverview cid w) = app w"
    using dead by (simp add: call_fetchCustomerOverview_def Let_def dead_run_actions)
  then show ?thesis
    using Refresh dead none timer_view_fields [OF call_fetch_frame(1), of cid w] call_fetch_frame(2) [of cid w]
    by simp
qed

lemma dead_run:
  assumes "\<not> mounted w" "timers w = []"
  shows "published (run es w) = published w \<and> app (run es w) = app w"
  using assms
proof (induction es arbitrary: w)
  case Nil
  then show ?case by (simp add: run_Nil)
next
  case (Cons e es)
  from dead_step [OF Cons.prems, of e] Cons.IH [of "step e w"]
  show ?case by (simp add: run_Cons)
qed

text \<open>
  C9. After the component is unmounted in any state the application can reach, no
  timeout is pending, and whatever happens afterwards (time passing included) publishes
  nothing and leaves the state as it was: a debounce timer that was pending at teardown
  never fires.
\<close>

theorem unmount_cancels_pending_timer:
  "timers (unmount (run es mount)) = [] \<and>
   published (run es' (unmount (run es mount))) = published (run es mount) \<and>
   app (run es' (unmount (run es mount))) = app (run es mount)"
  using unmount_clears [OF timers_ok_reachable, of es]
    dead_run [of "unmount (run es mount)" es']
  by simp


theorem unmount_cancels_pending_timer_witness:
  "timers (run [Change ''CUST001'', Advance 100] mount) \<noteq> [] \<and>
   published (run [Advance 1000] (run [Change ''CUST001'', Advance 100] mount)) = [''CUST001''] \<and>
   published (run [Advance 1000] (unmount (run [Change ''CUST001'', Advance 100] mount))) = []"
proof -
  have a: "timers (run [Change ''CUST001'', Advance 100] mount) \<noteq> []" by code_simp
  have b: "published (run [Advance 1000] (run [Change ''CUST001'', Advance 100] mount)) = [''CUST001'']"
    by code_simp
  have c: "published (run [Change ''CUST001'', Advance 100] mount) = []" by code_simp
  from unmount_cancels_pending_timer [of "[Change ''CUST001'', Advance 100]" "[Advance 1000]"] a b c show ?thesis by simp
qed

section \<open>Blank input\<close>

lemma change_keeps:
  assumes "timers_ok w" "v \<noteq> customerId (app w)"
  shows "debouncedCustomerId (app (change v w)) = debouncedCustomerId (app w)"
    and "mounted (change v w)"
  using assms
  by (auto simp: timers_ok_def change_def run_actions_def perform_def debounce_cleanup_def
      debounce_effect_def clearTimeout_def setTimeout_def truthy_ref_def Let_def
      split: option.splits list.splits)

lemma timer_fire_empty:
  assumes "mounted w" "trim v = []"
  shows "debouncedCustomerId (app (timer_fire v w)) = []"
    and "customerLoans (app (timer_fire v w)) = []"
    and "customerName (app (timer_fire v w)) = []"
    and "error (app (timer_fire v w)) = None"
  using assms
  by (simp_all add: timer_fire_def call_fetchCustomerOverview_def Let_def app_run_actions
      mounted_run_actions debounce_callback_def fetchCustomerOverview_start_def)

text \<open>
  C2 as stated fails: with the overview of \<open>CUST001\<close> on screen the input is changed to
  blanks; 499 ms later nothing has been published, the stable identifier is still
  \<open>CUST001\<close>, and the customer name and the loan are still held.
\<close>

theorem blank_input_not_published_at_once:
  "trim ''   '' = [] \<and>
   published (run [Change ''CUST001'', Advance 500,
                   Resolve 0 (Resolved \<lparr>status = 200, body = BodyObject
                     \<lparr>message = None, customer_name = Some ''Asha'',
                      loans = Some [\<lparr>loan_id = ''L123'', principal = 100000, total_amount = 150000,
                        total_interest = 50000, emi_amount = 2500, amount_paid = 0, emis_left = 60\<rparr>]\<rparr>\<rparr>),
                   Change ''   '', Advance 499] mount) = [''CUST001''] \<and>
   debouncedCustomerId (app (run [Change ''CUST001'', Advance 500,
                   Resolve 0 (Resolved \<lparr>status = 200, body = BodyObject
                     \<lparr>message = None, customer_name = Some ''Asha'',
                      loans = Some [\<lparr>loan_id = ''L123'', principal = 100000, total_amount = 150000,
                        total_interest = 50000, emi_amount = 2500, amount_paid = 0, emis_left = 60\<rparr>]\<rparr>\<rparr>),
                   Change ''   '', Advance 499] mount)) = ''CUST001'' \<and>
   customerName (app (run [Change ''CUST001'', Advance 500,
                   Resolve 0 (Resolved \<lparr>status = 200, body = BodyObject
                     \<lparr>message = None, customer_name = Some ''Asha'',
                      loans = Some [\<lparr>loan_id = ''L123'', principal = 100000, total_amount = 150000,
                        total_interest = 50000, emi_amount = 2500, amount_paid = 0, emis_left = 60\<rparr>]\<rparr>\<rparr>),
                   Change ''   '', Advance 499] mount)) = ''Asha'' \<and>
   length (customerLoans (app (run [Change ''CUST001'', Advance 500,
                   Resolve 0 (Resolved \<lparr>status = 200, body = BodyObject
                     \<lparr>message = None, customer_name = Some ''Asha'',
                      loans = Some [\<lparr>loan_id = ''L123'', principal = 100000, total_amount = 150000,
                        total_interest = 50000, emi_amount = 2500, amount_paid = 0, emis_left = 60\<rparr>]\<rparr>\<rparr>),
                   Change ''   '', Advance 499] mount))) = 1"
  by code_simp

text \<open>
  C2, amended. When the input is changed to a text that is empty after trimming, nothing
  is published and the stable identifier keeps its value for as long as less than 500 ms
  have passed; once 500 ms have passed with the input unchanged the empty identifier is
  published, and with it the loans, the customer name and the error are cleared.
\<close>

theorem blank_input_published_after_debounce:
  assumes blank: "trim v = []" and ne: "v \<noteq> customerId (app (run es mount))"
    and early: "d < 500" and late: "500 \<le> d'"
  shows "published (run [Change v, Advance d] (run es mount)) = published (run es mount) \<and>
         debouncedCustomerId (app (run [Change v, Advance d] (run es mount)))
           = debouncedCustomerId (app (run es mount)) \<and>
         published (run [Change v, Advance d'] (run es mount)) = published (run es mount) @ [[]] \<and>
         debouncedCustomerId (app (run [Change v, Advance d'] (run es mount))) = [] \<and>
         customerLoans (app (run [Change v, Advance d'] (run es mount))) = [] \<and>
         customerName (app (run [Change v, Advance d'] (run es mount))) = [] \<and>
         error (app (run [Change v, Advance d'] (run es mount))) = None"
proof -
  let ?w = "run es mount"
  let ?c = "change v ?w"
  have ok: "timers_ok ?w" by (rule timers_ok_reachable)
  have t: "timers ?c = [(next_timer ?w, now ?w + 500, v)]" by (rule timers_ok_change(2) [OF ok ne])
  have n: "now ?c = now ?w" by (rule timers_ok_change(5) [OF ok ne])
  have lt: "now ?c + d < now ?w + 500" using early n by simp
  have a: "advance d ?c = ?c\<lparr>now := now ?c + d\<rparr>" by (rule advance_early [OF t lt])
  have p1: "published (advance d ?c) = published ?w"
    using a timers_ok_change(3) [OF ok ne] by simp
  have p2: "debouncedCustomerId (app (advance d ?c)) = debouncedCustomerId (app ?w)"
    using a change_keeps(1) [OF ok ne] by simp
  let ?q = "?c\<lparr>now := now ?w + d', timers := []\<rparr>"
  have f: "advance d' ?c = timer_fire v ?q" by (rule quiet_period [OF ok ne late])
  have m: "mounted ?q" using change_keeps(2) [OF ok ne] by simp
  have p3: "published (advance d' ?c) = published ?w @ [[]]"
    using f timer_fire_frame(2) [of v ?q] timers_ok_change(3) [OF ok ne] blank by simp
  note e = timer_fire_empty [OF m blank]
  show ?thesis using p1 p2 p3 e f by (simp add: run_Cons run_Nil)
qed


theorem blank_input_published_after_debounce_witness:
  "trim ''   '' = [] \<and> ''   '' \<noteq> customerId (app (run [Change ''CUST001'', Advance 500] mount)) \<and>
   (499::nat) < 500 \<and> (500::nat) \<le> 500 \<and>
   debouncedCustomerId (app (run [Change ''   '', Advance 499] (run [Change ''CUST001'', Advance 500] mount)))
     = ''CUST001'' \<and>
   debouncedCustomerId (app (run [Change ''   '', Advance 500] (run [Change ''CUST001'', Advance 500] mount)))
     = []"
proof -
  have h1: "trim ''   '' = []" by code_simp
  have h2: "''   '' \<noteq> customerId (app (run [Change ''CUST001'', Advance 500] mount))" by code_simp
  have h3: "(499::nat) < 500" by simp
  have h4: "(500::nat) \<le> 500" by simp
  have d: "debouncedCustomerId (app (run [Change ''CUST001'', Advance 500] mount)) = ''CUST001''"
    by code_simp
  from blank_input_published_after_debounce [OF h1 h2 h3 h4] d h1 h2 show ?thesis by simp
qed

section \<open>Refresh with an empty identifier\<close>

text \<open>
  C6 as stated fails: the request for \<open>CUST001\<close> is still pending when the input is
  cleared and the empty identifier is published; a refresh with the empty identifier
  leaves the loading flag set, so what is shown is the loading state, not the idle one.
\<close>

theorem refresh_on_empty_identifier_keeps_loading:
  "debouncedCustomerId (app (run [Change ''CUST001'', Advance 500, Change [], Advance 500] mount)) = [] \<and>
   fetch_state (app (run [Change ''CUST001'', Advance 500, Change [], Advance 500, Refresh []] mount))
     = Loading"
  by code_simp

text \<open>
  C6, amended. A call of \<open>fetchCustomerOverview\<close> created with an empty identifier
  clears the loans and the customer name and returns without a request (none is
  logged, none becomes pending); it leaves the loading flag, the error and the
  identifier as they were, so the state shown afterwards is the idle one exactly when
  no request is loading, no error is set and the identifier is empty.
\<close>

theorem refresh_on_empty_identifier_clears_data:
  "fetchCustomerOverview_start [] = [SetCustomerLoans [], SetCustomerName []] \<and>
   customerLoans (app (step (Refresh []) (run es mount))) = [] \<and>
   customerName (app (step (Refresh []) (run es mount))) = [] \<and>
   requests (step (Refresh []) (run es mount)) = requests (run es mount) \<and>
   inflight (step (Refresh []) (run es mount)) = inflight (run es mount) \<and>
   isLoading (app (step (Refresh []) (run es mount))) = isLoading (app (run es mount)) \<and>
   error (app (step (Refresh []) (run es mount))) = error (app (run es mount)) \<and>
   debouncedCustomerId (app (step (Refresh []) (run es mount)))
     = debouncedCustomerId (app (run es mount)) \<and>
   (fetch_state (app (step (Refresh []) (run es mount))) = Idle) =
     (\<not> isLoading (app (run es mount)) \<and> error (app (run es mount)) = None \<and>
      debouncedCustomerId (app (run es mount)) = [])"
  using mounted_reachable [of es]
  by (auto simp: call_fetchCustomerOverview_def fetchCustomerOverview_start_def run_actions_def
      perform_def Let_def fetch_state_def split: option.splits)

section \<open>Overlapping overview requests\<close>

lemma app_resolve:
  assumes "mounted w" "k < length (inflight w)"
  shows "app (resolve k out w) = fold set_state (fetchCustomerOverview_resume (inflight w ! k) out) (app w)"
  using assms by (simp add: resolve_def app_run_actions)

lemma resume_success:
  assumes "ok r" "body r = BodyObject data"
  shows "fetchCustomerOverview_resume cid (Resolved r) =
           [SetCustomerLoans (case loans data of None \<Rightarrow> [] | Some l \<Rightarrow> l),
            SetCustomerName (or_else (customer_name data) (''Customer '' @ cid)),
            SetIsLoading False]"
  using assms
  by (simp add: fetchCustomerOverview_resume_def fetchCustomerOverview_settle_def overview_try_def)

lemma resume_rejected:
  "fetchCustomerOverview_resume cid (Rejected m) =
     [ConsoleError (''Failed to fetch customer overview: '' @ m),
      SetError (Some (''Failed to load customer data: '' @ m @ ''. Please check the Customer ID.'')),
      SetCustomerLoans [], SetCustomerName [], SetIsLoading False]"
  by (simp add: fetchCustomerOverview_resume_def fetchCustomerOverview_settle_def overview_try_def
      overview_catch_def)

lemma resume_http_error:
  assumes "\<not> ok r" "body r = BodyObject errorData"
  shows "fetchCustomerOverview_resume cid (Resolved r) =
     [ConsoleError (''Failed to fetch customer overview: '' @
        or_else (message errorData) (''HTTP error! status: '' @ show_nat (status r))),
      SetError (Some (''Failed to load customer data: '' @
        or_else (message errorData) (''HTTP error! status: '' @ show_nat (status r)) @
        ''. Please check the Customer ID.'')),
      SetCustomerLoans [], SetCustomerName [], SetIsLoading False]"
  using assms
  by (simp add: fetchCustomerOverview_resume_def fetchCustomerOverview_settle_def overview_try_def
      overview_catch_def)

text \<open>
  C1 as stated fails: the request for \<open>CUST001\<close> is pending when \<open>CUST002\<close> is
  published and requested; the response for \<open>CUST002\<close> arrives first and the one for
  \<open>CUST001\<close> after it. The identifier is then \<open>CUST002\<close> while the customer name and
  the loans are those of \<open>CUST001\<close>. A late failure of the older request likewise
  replaces the newer result by its error.
\<close>

theorem late_response_overwrites_newer_identifier:
  "debouncedCustomerId (app (run
      [Change ''CUST001'', Advance 500, Change ''CUST002'', Advance 500,
       Resolve 1 (Resolved \<lparr>status = 200, body = BodyObject
          \<lparr>message = None, customer_name = Some ''Bina'', loans = Some []\<rparr>\<rparr>),
       Resolve 0 (Resolved \<lparr>status = 200, body = BodyObject
          \<lparr>message = None, customer_name = Some ''Asha'',
           loans = Some [\<lparr>loan_id = ''L123'', principal = 100000, total_amount = 150000,
             total_interest = 50000, emi_amount = 2500, amount_paid = 0, emis_left = 60\<rparr>]\<rparr>\<rparr>)]
      mount)) = ''CUST002'' \<and>
   customerName (app (run
      [Change ''CUST001'', Advance 500, Change ''CUST002'', Advance 500,
       Resolve 1 (Resolved \<lparr>status = 200, body = BodyObject
          \<lparr>message = None, customer_name = Some ''Bina'', loans = Some []\<rparr>\<rparr>),
       Resolve 0 (Resolved \<lparr>status = 200, body = BodyObject
          \<lparr>message = None, customer_name = Some ''Asha'',
           loans = Some [\<lparr>loan_id = ''L123'', principal = 100000, total_amount = 150000,
             total_interest = 50000, emi_amount = 2500, amount_paid = 0, emis_left = 60\<rparr>]\<rparr>\<rparr>)]
      mount)) = ''Asha'' \<and>
   map loan_id (customerLoans (app (run
      [Change ''CUST001'', Advance 500, Change ''CUST002'', Advance 500,
       Resolve 1 (Resolved \<lparr>status = 200, body = BodyObject
          \<lparr>message = None, customer_name = Some ''Bina'', loans = Some []\<rparr>\<rparr>),
       Resolve 0 (Resolved \<lparr>status = 200, body = BodyObject
          \<lparr>message = None, customer_name = Some ''Asha'',
           loans = Some [\<lparr>loan_id = ''L123'', principal = 100000, total_amount = 150000,
             total_interest = 50000, emi_amount = 2500, amount_paid = 0, emis_left = 60\<rparr>]\<rparr>\<rparr>)]
      mount))) = [''L123'']"
  by code_simp


lemma late_failure_overwrites_newer_identifier:
  "fetch_state (app (run
      [Change ''CUST001'', Advance 500, Change ''CUST002'', Advance 500,
       Resolve 1 (Resolved \<lparr>status = 200, body = BodyObject
          \<lparr>message = None, customer_name = Some ''Bina'', loans = Some []\<rparr>\<rparr>),
       Resolve 0 (Rejected ''Failed to fetch'')]
      mount)) = Failure ''Failed to load customer data: Failed to fetch. Please check the Customer ID.''"
  by code_simp


text \<open>
  C1, amended. There is no staleness guard: in every state the application can reach, a
  pending overview request that settles applies its own result, whatever the current
  identifier is. A 2xx response whose body is an object sets the loans and the customer
  name to those of the response (the name defaulting to \<open>Customer\<close> and the identifier
  the request was made for) and leaves the error as it was. Every other outcome, that is
  a non-2xx response, a response whose body is null or cannot be read, or a transport
  failure, sets the error to that request's message and clears the loans and the name.
  In both cases the loading flag is reset. So of two overlapping requests the one that
  settles last determines the loans and the name that are shown.
\<close>

theorem settling_request_applies_its_own_result:
  assumes k: "k < length (inflight (run es mount))"
  shows "(ok r \<and> body r = BodyObject data \<longrightarrow>
            customerLoans (app (resolve k (Resolved r) (run es mount)))
              = (case loans data of None \<Rightarrow> [] | Some l \<Rightarrow> l) \<and>
            customerName (app (resolve k (Resolved r) (run es mount)))
              = or_else (customer_name data) (''Customer '' @ inflight (run es mount) ! k) \<and>
            error (app (resolve k (Resolved r) (run es mount))) = error (app (run es mount)) \<and>
            \<not> isLoading (app (resolve k (Resolved r) (run es mount)))) \<and>
         (\<not> (ok r \<and> (\<exists>d. body r = BodyObject d)) \<longrightarrow>
            error (app (resolve k (Resolved r) (run es mount)))
              = Some (''Failed to load customer data: '' @
                      (case body r of
                         BodyObject d \<Rightarrow>
                           or_else (message d) (''HTTP error! status: '' @ show_nat (status r))
                       | BodyError e \<Rightarrow> e
                       | BodyNull \<Rightarrow> null_read (if ok r then ''loans'' else ''message'')) @
                      ''. Please check the Customer ID.'') \<and>
            customerLoans (app (resolve k (Resolved r) (run es mount))) = [] \<and>
            customerName (app (resolve k (Resolved r) (run es mount))) = [] \<and>
            \<not> isLoading (app (resolve k (Resolved r) (run es mount)))) \<and>
         error (app (resolve k (Rejected m) (run es mount)))
           = Some (''Failed to load customer data: '' @ m @ ''. Please check the Customer ID.'') \<and>
         customerLoans (app (resolve k (Rejected m) (run es mount))) = [] \<and>
         customerName (app (resolve k (Rejected m) (run es mount))) = [] \<and>
         \<not> isLoading (app (resolve k (Rejected m) (run es mount)))"
proof -
  note a = app_resolve [OF mounted_reachable k]
  have s: "ok r \<and> body r = BodyObject data \<longrightarrow>
            customerLoans (app (resolve k (Resolved r) (run es mount)))
              = (case loans data of None \<Rightarrow> [] | Some l \<Rightarrow> l) \<and>
            customerName (app (resolve k (Resolved r) (run es mount)))
              = or_else (customer_name data) (''Customer '' @ inflight (run es mount) ! k) \<and>
            error (app (resolve k (Resolved r) (run es mount))) = error (app (run es mount)) \<and>
            \<not> isLoading (app (resolve k (Resolved r) (run es mount)))"
    by (simp add: a resume_success)
  have f: "\<not> (ok r \<and> (\<exists>d. body r = BodyObject d)) \<longrightarrow>
            error (app (resolve k (Resolved r) (run es mount)))
              = Some (''Failed to load customer data: '' @
                      (case body r of
                         BodyObject d \<Rightarrow>
                           or_else (message d) (''HTTP error! status: '' @ show_nat (status r))
                       | BodyError e \<Rightarrow> e
                       | BodyNull \<Rightarrow> null_read (if ok r then ''loans'' else ''message'')) @
                      ''. Please check the Customer ID.'') \<and>
            customerLoans (app (resolve k (Resolved r) (run es mount))) = [] \<and>
            customerName (app (resolve k (Resolved r) (run es mount))) = [] \<and>
            \<not> isLoading (app (resolve k (Resolved r) (run es mount)))"
    by (cases "body r")
       (auto simp: a fetchCustomerOverview_resume_def fetchCustomerOverview_settle_def
          overview_try_def overview_catch_def)
  have t: "error (app (resolve k (Rejected m) (run es mount)))
           = Some (''Failed to load customer data: '' @ m @ ''. Please check the Customer ID.'') \<and>
         customerLoans (app (resolve k (Rejected m) (run es mount))) = [] \<and>
         customerName (app (resolve k (Rejected m) (run es mount))) = [] \<and>
         \<not> isLoading (app (resolve k (Rejected m) (run es mount)))"
    by (simp add: a resume_rejected)
  from s f t show ?thesis by blast
qed

theorem settling_request_applies_its_own_result_witness:
  "0 < length (inflight (run [Change ''CUST001'', Advance 500, Change ''CUST002'', Advance 500,
       Resolve 1 (Resolved \<lparr>status = 200, body = BodyObject
          \<lparr>message = None, customer_name = Some ''Bina'', loans = Some []\<rparr>\<rparr>)] mount)) \<and>
   ok \<lparr>status = 200, body = BodyObject \<lparr>message = None, customer_name = None, loans = None\<rparr>\<rparr> \<and>
   \<not> (ok \<lparr>status = 200, body = (BodyNull :: overview_body json_result)\<rparr> \<and>
      (\<exists>d. body \<lparr>status = 200, body = (BodyNull :: overview_body json_result)\<rparr> = BodyObject d)) \<and>
   \<not> (ok \<lparr>status = 404, body = BodyObject \<lparr>message = Some ''customer not found'', customer_name = None, loans = None\<rparr>\<rparr> \<and>
      (\<exists>d. body \<lparr>status = 404, body = BodyObject \<lparr>message = Some ''customer not found'', customer_name = None, loans = None\<rparr>\<rparr> = BodyObject d)) \<and>
   debouncedCustomerId (app (run [Change ''CUST001'', Advance 500, Change ''CUST002'', Advance 500,
       Resolve 1 (Resolved \<lparr>status = 200, body = BodyObject
          \<lparr>message = None, customer_name = Some ''Bina'', loans = Some []\<rparr>\<rparr>)] mount)) = ''CUST002'' \<and>
   customerName (app (resolve 0
       (Resolved \<lparr>status = 200, body = BodyObject \<lparr>message = None, customer_name = None, loans = None\<rparr>\<rparr>)
       (run [Change ''CUST001'', Advance 500, Change ''CUST002'', Advance 500,
       Resolve 1 (Resolved \<lparr>status = 200, body = BodyObject
          \<lparr>message = None, customer_name = Some ''Bina'', loans = Some []\<rparr>\<rparr>)] mount)))
     = ''Customer CUST001'' \<and>
   customerName (app (resolve 0
       (Resolved \<lparr>status = 200, body = BodyNull\<rparr>)
       (run [Change ''CUST001'', Advance 500, Change ''CUST002'', Advance 500,
       Resolve 1 (Resolved \<lparr>status = 200, body = BodyObject
          \<lparr>message = None, customer_name = Some ''Bina'', loans = Some []\<rparr>\<rparr>)] mount)))
     = [] \<and>
   error (app (resolve 0
       (Resolved \<lparr>status = 404, body = BodyObject \<lparr>message = Some ''customer not found'', customer_name = None, loans = None\<rparr>\<rparr>)
       (run [Change ''CUST001'', Advance 500, Change ''CUST002'', Advance 500,
       Resolve 1 (Resolved \<lparr>status = 200, body = BodyObject
          \<lparr>message = None, customer_name = Some ''Bina'', loans = Some []\<rparr>\<rparr>)] mount)))
     = Some ''Failed to load customer data: customer not found. Please check the Customer ID.''"
proof -
  let ?w = "run [Change ''CUST001'', Advance 500, Change ''CUST002'', Advance 500,
       Resolve 1 (Resolved \<lparr>status = 200, body = BodyObject
          \<lparr>message = None, customer_name = Some ''Bina'', loans = Some []\<rparr>\<rparr>)] mount"
  let ?r1 = "\<lparr>status = 200, body = BodyObject \<lparr>message = None, customer_name = None, loans = None\<rparr>\<rparr>"
  let ?r2 = "\<lparr>status = 404, body = BodyObject \<lparr>message = Some ''customer not found'', customer_name = None, loans = None\<rparr>\<rparr>"
  let ?r3 = "\<lparr>status = 200, body = (BodyNull :: overview_body json_result)\<rparr>"
  have k: "0 < length (inflight ?w)" by code_simp
  have i: "inflight ?w ! 0 = ''CUST001''" by code_simp
  have d: "debouncedCustomerId (app ?w) = ''CUST002''" by code_simp
  have o1: "ok ?r1" by (simp add: ok_def)
  have o2: "\<not> (ok ?r2 \<and> (\<exists>d. body ?r2 = BodyObject d))" by (simp add: ok_def)
  have o3: "\<not> (ok ?r3 \<and> (\<exists>d. body ?r3 = BodyObject d))" by simp
  from settling_request_applies_its_own_result
    [OF k, of ?r1 "\<lparr>message = None, customer_name = None, loans = None\<rparr>"] o1 i
  have a: "customerName (app (resolve 0 (Resolved ?r1) ?w)) = ''Customer CUST001''" by simp
  from settling_request_applies_its_own_result [OF k, of ?r2] o2
  have b: "error (app (resolve 0 (Resolved ?r2) ?w))
     = Some ''Failed to load customer data: customer not found. Please check the Customer ID.''" by simp
  from settling_request_applies_its_own_result [OF k, of ?r3] o3
  have c: "customerName (app (resolve 0 (Resolved ?r3) ?w)) = []" by blast
  from k o1 o2 o3 d a b c show ?thesis by blast
qed

section \<open>Error and data\<close>

lemma fold_resume_inv:
  "error s = None \<or> snd (overview_try cid out) \<noteq> None \<Longrightarrow>
   overview_inv (fold set_state (fetchCustomerOverview_resume cid out) s)"
  using overview_try_cases [of cid out]
  by (auto simp: overview_inv_def fetchCustomerOverview_resume_def fetchCustomerOverview_settle_def
      overview_catch_def)

text \<open>
  C10 as stated fails: of two overlapping requests the older fails first and the newer
  then succeeds; after the completed execution of the newer one the error of the older
  is still set while loans and a customer name are held.
\<close>

theorem error_with_loans_after_overlap:
  "\<not> overview_inv (app (run
      [Change ''CUST001'', Advance 500, Change ''CUST002'', Advance 500,
       Resolve 0 (Rejected ''Failed to fetch''),
       Resolve 0 (Resolved \<lparr>status = 200, body = BodyObject
          \<lparr>message = None, customer_name = Some ''Bina'',
           loans = Some [\<lparr>loan_id = ''L123'', principal = 100000, total_amount = 150000,
             total_interest = 50000, emi_amount = 2500, amount_paid = 0, emis_left = 60\<rparr>]\<rparr>\<rparr>)]
      mount))"
  by code_simp

text \<open>
  C10, amended. After an execution of \<open>fetchCustomerOverview\<close> during which nothing else
  changes the state between its start and the settling of its request, a set error
  implies that the loans and the customer name are empty. For a settling on its own this
  holds when the error was still null at that point, and whenever the execution ends in
  failure; the return for an empty identifier gives it too.
\<close>

theorem overview_fetch_keeps_error_and_data_apart:
  "overview_inv (fold set_state (overview_cycle cid out) s) \<and>
   (error s = None \<longrightarrow> overview_inv (fold set_state (fetchCustomerOverview_resume cid out) s)) \<and>
   (snd (overview_try cid out) \<noteq> None \<longrightarrow>
      overview_inv (fold set_state (fetchCustomerOverview_resume cid out) s)) \<and>
   overview_inv (fold set_state (fetchCustomerOverview_start []) s)"
proof -
  have a: "overview_inv (fold set_state (fetchCustomerOverview_start []) s)"
    by (simp add: overview_inv_def fetchCustomerOverview_start_def)
  have b: "overview_inv (fold set_state (overview_cycle cid out) s)"
  proof (cases "cid = []")
    case True
    then show ?thesis using a by (simp add: overview_cycle_def)
  next
    case False
    have "error (fold set_state (fetchCustomerOverview_start cid) s) = None"
      using False by (simp add: fetchCustomerOverview_start_def)
    then show ?thesis
      using False fold_resume_inv [of "fold set_state (fetchCustomerOverview_start cid) s" cid out]
      by (simp add: overview_cycle_def)
  qed
  show ?thesis using a b fold_resume_inv [of s cid out] by blast
qed


theorem overview_fetch_keeps_error_and_data_apart_witness:
  "error initial_state = None \<and>
   snd (overview_try ''CUST001'' (Rejected ''Failed to fetch'')) \<noteq> None \<and>
   error (fold set_state (overview_cycle ''CUST001'' (Rejected ''Failed to fetch'')) initial_state) \<noteq> None \<and>
   customerLoans (fold set_state (overview_cycle ''CUST001'' (Rejected ''Failed to fetch'')) initial_state) = [] \<and>
   customerName (fold set_state (overview_cycle ''CUST001'' (Rejected ''Failed to fetch'')) initial_state) = []"
proof -
  have h1: "error initial_state = None" by (simp add: initial_state_def)
  have h2: "snd (overview_try ''CUST001'' (Rejected ''Failed to fetch'')) \<noteq> None"
    by (simp add: overview_try_def)
  have h3: "error (fold set_state (overview_cycle ''CUST001'' (Rejected ''Failed to fetch'')) initial_state) \<noteq> None"
    by (simp add: overview_cycle_def fetchCustomerOverview_start_def resume_rejected)
  from overview_fetch_keeps_error_and_data_apart [of "''CUST001''" "Rejected ''Failed to fetch''" initial_state] h3
  have "customerLoans (fold set_state (overview_cycle ''CUST001'' (Rejected ''Failed to fetch'')) initial_state) = [] \<and>
        customerName (fold set_state (overview_cycle ''CUST001'' (Rejected ''Failed to fetch'')) initial_state) = []"
    unfolding overview_inv_def by blast
  with h1 h2 h3 show ?thesis by blast
qed


end
